theory Spec2Isabelle
  imports Complex_Main "HOL-Library.Log_Nat"
begin

section \<open>Host numbers: Python integers and floats\<close>

text \<open>
  The evaluator of \<^verbatim>\<open>src/evaluator.py\<close> computes with the values of its host language.
  An Integer is a Python \<^verbatim>\<open>int\<close> (unbounded, so \<^typ>\<open>int\<close>). A Float is a Python
  \<^verbatim>\<open>float\<close>, an IEEE-754 binary64 number: a finite double is given by the rational it
  denotes, and the two infinities and NaN are separate constructors. The sign of a zero is
  not represented (no operation of the evaluator modelled here can observe it).
\<close>

datatype pyfloat = Fin rat | PInf | NInf | NaN

definition round_half_even :: "rat \<Rightarrow> int" where
  "round_half_even q =
     (let f = \<lfloor>q\<rfloor>; r = q - of_int f in
      if r < 1 / 2 then f else if 1 / 2 < r then f + 1 else if even f then f else f + 1)"

text \<open>\<open>floor_log2 q\<close> is the binary exponent of a positive rational: \<open>2 ^ e \<le> q < 2 ^ (e + 1)\<close>.\<close>

definition floor_log2 :: "rat \<Rightarrow> int" where
  "floor_log2 q = (if 1 \<le> q then bitlen \<lfloor>q\<rfloor> - 1 else - bitlen (\<lceil>1 / q\<rceil> - 1))"

text \<open>
  Rounding to the nearest number with a 53-bit significand, ties to even; below
  \<open>2 ^ -1022\<close> the spacing stays \<open>2 ^ -1074\<close> (subnormal numbers).
\<close>

definition round_double :: "rat \<Rightarrow> rat" where
  "round_double q =
     (if q = 0 then 0
      else let e = max (floor_log2 \<bar>q\<bar>) (- 1022) - 52
           in of_int (round_half_even (q / 2 powi e)) * 2 powi e)"

text \<open>The result of a float operation: a rounded value beyond the largest double is an infinity.\<close>

definition to_double :: "rat \<Rightarrow> pyfloat" where
  "to_double q =
     (let r = round_double q in
      if 2 ^ 1024 \<le> r then PInf else if r \<le> - (2 ^ 1024) then NInf else Fin r)"

fun fneg :: "pyfloat \<Rightarrow> pyfloat" where
  "fneg (Fin a) = Fin (- a)"
| "fneg PInf = NInf"
| "fneg NInf = PInf"
| "fneg NaN = NaN"

fun fpos :: "pyfloat \<Rightarrow> bool" where
  "fpos (Fin a) = (0 < a)"
| "fpos PInf = True"
| "fpos NInf = False"
| "fpos NaN = False"

fun fadd :: "pyfloat \<Rightarrow> pyfloat \<Rightarrow> pyfloat" where
  "fadd (Fin a) (Fin b) = to_double (a + b)"
| "fadd NaN y = NaN"
| "fadd x NaN = NaN"
| "fadd PInf NInf = NaN"
| "fadd NInf PInf = NaN"
| "fadd PInf y = PInf"
| "fadd NInf y = NInf"
| "fadd (Fin a) y = y"

definition fsub :: "pyfloat \<Rightarrow> pyfloat \<Rightarrow> pyfloat" where
  "fsub x y = fadd x (fneg y)"

fun fmul :: "pyfloat \<Rightarrow> pyfloat \<Rightarrow> pyfloat" where
  "fmul (Fin a) (Fin b) = to_double (a * b)"
| "fmul NaN y = NaN"
| "fmul x NaN = NaN"
| "fmul x y = (if x = Fin 0 \<or> y = Fin 0 then NaN else if fpos x = fpos y then PInf else NInf)"

text \<open>Division and remainder are only reached with a divisor that is not zero.\<close>

fun fdiv :: "pyfloat \<Rightarrow> pyfloat \<Rightarrow> pyfloat" where
  "fdiv (Fin a) (Fin b) = to_double (a / b)"
| "fdiv NaN y = NaN"
| "fdiv x NaN = NaN"
| "fdiv (Fin a) y = Fin 0"
| "fdiv x (Fin b) = (if fpos x = (0 < b) then PInf else NInf)"
| "fdiv x y = NaN"

text \<open>
  C's \<^verbatim>\<open>fmod\<close> is exact and takes the sign of the dividend; Python's \<^verbatim>\<open>float_rem\<close>
  then adds the divisor when the signs differ, so that the result has the divisor's sign.
\<close>

definition fmod :: "rat \<Rightarrow> rat \<Rightarrow> rat" where
  "fmod a b = a - b * of_int (if 0 \<le> a / b then \<lfloor>a / b\<rfloor> else \<lceil>a / b\<rceil>)"

fun frem :: "pyfloat \<Rightarrow> pyfloat \<Rightarrow> pyfloat" where
  "frem (Fin a) (Fin b) =
     (let m = fmod a b in
      if m \<noteq> 0 \<and> ((b < 0) \<noteq> (m < 0)) then to_double (m + b) else Fin m)"
| "frem NaN y = NaN"
| "frem x NaN = NaN"
| "frem PInf y = NaN"
| "frem NInf y = NaN"
| "frem (Fin a) PInf = (if a < 0 then PInf else Fin a)"
| "frem (Fin a) NInf = (if 0 < a then NInf else Fin a)"

fun fless :: "pyfloat \<Rightarrow> pyfloat \<Rightarrow> bool" where
  "fless (Fin a) (Fin b) = (a < b)"
| "fless NaN y = False"
| "fless x NaN = False"
| "fless x NInf = False"
| "fless PInf y = False"
| "fless x y = True"

fun feq :: "pyfloat \<Rightarrow> pyfloat \<Rightarrow> bool" where
  "feq (Fin a) (Fin b) = (a = b)"
| "feq PInf PInf = True"
| "feq NInf NInf = True"
| "feq x y = False"

definition fle :: "pyfloat \<Rightarrow> pyfloat \<Rightarrow> bool" where
  "fle x y = (fless x y \<or> feq x y)"

fun is_integer :: "pyfloat \<Rightarrow> bool" where
  "is_integer (Fin a) = (of_int \<lfloor>a\<rfloor> = a)"
| "is_integer x = False"

text \<open>Decimal text of an integer, as \<^verbatim>\<open>str\<close> gives it.\<close>

definition digit_char :: "nat \<Rightarrow> char" where
  "digit_char n = char_of (48 + n)"

function show_nat :: "nat \<Rightarrow> string" where
  "show_nat n = (if n < 10 then [digit_char n] else show_nat (n div 10) @ [digit_char (n mod 10)])"
  by pat_completeness auto
termination
  by (relation "measure id") auto

declare show_nat.simps [simp del]

definition show_int :: "int \<Rightarrow> string" where
  "show_int i = (if i < 0 then CHR ''-'' # show_nat (nat (- i)) else show_nat (nat i))"


section \<open>Syntax trees, runtime values and the interpreter state\<close>

text \<open>
  The node classes are imported by the evaluator from \<^verbatim>\<open>src.ast_1\<close> and the operator
  token types from \<^verbatim>\<open>src.lexer\<close>; the evaluator reads the fields named below. A token
  only supplies the line and lexeme of an error message and is left out. \<open>OTHER\<close> stands
  for every token type that the evaluator does not test for. Where the evaluator calls
  \<^verbatim>\<open>execute_block\<close> on a body (function, lambda, for-loop) the body is the statement
  list of that Block; the cases of a match are pattern/body pairs. The node \<open>If\<close> is named
  \<open>If_stmt\<close> here.
\<close>

datatype token_type =
  PLUS | MINUS | MULTIPLY | DIVIDE | EXPONENT | REM | LT | GT | LTE | GTE | EQEQ | NOTEQ
  | AND | OR | NOT | OTHER

datatype node =
    Integer int
  | Float pyfloat
  | String string
  | Boolean bool
  | Var string
  | VarAssign string node
  | VarReassign string node
  | BinOp node token_type node
  | UnaryOp token_type node
  | Block "node list"
  | If_stmt node node "node option"
  | While node node
  | For string node node "node option" "node list"
  | RepeatUntil node node
  | Match node "(node \<times> node) list"
  | MatchCase node node
  | FuncDef string "string list" "node list"
  | FuncCall node "node list"
  | Return "node option"
  | Lambda "string list" "node list"
  | Array "node list"
  | Dict "(node \<times> node) list"
  | ConditionalExpr node node node
  | Print node
  | ArrayAssign string node node
  | ArrayAccess string node

text \<open>
  Runtime values are Python objects. \<^verbatim>\<open>None\<close> is \<open>VNil\<close>; a list is mutable and shared,
  so an Array value is the address of its list in the store; a \<^verbatim>\<open>Function\<close> object is
  compared by identity, so a Function value is the address of its object; a dict is never
  updated once built and is given by its entries in insertion order.
\<close>

datatype val =
    VNil
  | VBool bool
  | VInt int
  | VFloat pyfloat
  | VStr string
  | VArray nat
  | VDict "(val \<times> val) list"
  | VFunc nat
  | VBuiltin string

text \<open>The messages of \<^verbatim>\<open>FluxRuntimeError\<close>, one constructor for each \<^verbatim>\<open>raise\<close>.\<close>

datatype runtime_error =
    UndefinedVariable string
  | CannotReassign string
  | PlusOperands
  | OperandsMustBeNumbers
  | OperandMustBeNumber
  | DivisionByZero
  | RemainderByZero
  | UnknownBinaryOperator
  | UnknownUnaryOperator
  | StartNotNumber
  | EndNotNumber
  | StepNotNumber
  | StepZero
  | NoMatchingCase
  | NotCallable
  | ArityMismatch nat nat
  | LenArity nat
  | LenNone
  | LenUnsupported
  | AssignNonArray
  | IndexNonArray
  | IndexNotInteger
  | IndexOutOfBounds int

text \<open>
  Everything that can be raised. \<open>ReturnException\<close> and \<open>TailCall\<close> are the two control
  exceptions of the evaluator; \<open>HostException\<close> is an exception of Python itself;
  \<open>Unmodelled\<close> marks host behaviour that this development leaves out (the power function
  and the text of a float that is not integral, the text of a list or a dict, the identity
  of NaN objects); \<open>OutOfFuel\<close> ends a loop whose iteration bound is used up.
\<close>

datatype host_exception = OverflowError | TypeError | RecursionError

datatype signal =
    FluxRuntimeError runtime_error
  | ReturnException val
  | TailCall nat "val list"
  | HostException host_exception
  | Unmodelled
  | OutOfFuel

record environment =
  parent :: "nat option"
  variables :: "string \<rightharpoonup> val"

record func =
  func_name :: string
  func_params :: "string list"
  func_body :: "node list"
  closure :: nat
  is_anonymous :: bool

record state =
  envs :: "nat \<Rightarrow> environment"
  next_env :: nat
  funcs :: "nat \<Rightarrow> func"
  next_func :: nat
  arrays :: "nat \<Rightarrow> val list"
  next_array :: nat
  env :: nat
  current_function :: "nat option"
  in_tail_position :: bool
  stdout :: "string list"

type_synonym 'a result = "(signal + 'a) \<times> state"


section \<open>Operations on values\<close>

text \<open>
  \<^verbatim>\<open>isinstance(v, (int, float))\<close> holds for an \<^verbatim>\<open>int\<close>, a \<^verbatim>\<open>float\<close> and also for a
  \<^verbatim>\<open>bool\<close>, since \<^verbatim>\<open>bool\<close> is a subclass of \<^verbatim>\<open>int\<close> in Python: \<^verbatim>\<open>True\<close> and
  \<^verbatim>\<open>False\<close> take part in arithmetic and comparisons as 1 and 0.
\<close>

datatype pynum = PInt int | PFloat pyfloat

fun num_of :: "val \<Rightarrow> pynum option" where
  "num_of (VInt i) = Some (PInt i)"
| "num_of (VBool b) = Some (PInt (if b then 1 else 0))"
| "num_of (VFloat x) = Some (PFloat x)"
| "num_of v = None"

definition is_number :: "val \<Rightarrow> bool" where
  "is_number v = (num_of v \<noteq> None)"

text \<open>Python compares an \<^verbatim>\<open>int\<close> with a \<^verbatim>\<open>float\<close> by their exact values.\<close>

fun exact :: "pynum \<Rightarrow> pyfloat" where
  "exact (PInt i) = Fin (of_int i)"
| "exact (PFloat x) = x"

definition num_eq :: "pynum \<Rightarrow> pynum \<Rightarrow> bool" where
  "num_eq a b = feq (exact a) (exact b)"

definition num_less :: "pynum \<Rightarrow> pynum \<Rightarrow> bool" where
  "num_less a b = fless (exact a) (exact b)"

definition num_le :: "pynum \<Rightarrow> pynum \<Rightarrow> bool" where
  "num_le a b = fle (exact a) (exact b)"

text \<open>
  Arithmetic on two ints is exact. As soon as one operand is a float the other is converted
  to a float (\<^verbatim>\<open>OverflowError\<close> when the int is too large) and the float operation is used.
  The quotient \<^verbatim>\<open>/\<close> of two ints is the correctly rounded double, or \<^verbatim>\<open>OverflowError\<close>.
\<close>

definition float_of_int :: "int \<Rightarrow> signal + pyfloat" where
  "float_of_int i =
     (case to_double (of_int i) of Fin r \<Rightarrow> Inr (Fin r) | _ \<Rightarrow> Inl (HostException OverflowError))"

fun as_float :: "pynum \<Rightarrow> signal + pyfloat" where
  "as_float (PInt i) = float_of_int i"
| "as_float (PFloat x) = Inr x"

definition float_op :: "(pyfloat \<Rightarrow> pyfloat \<Rightarrow> pyfloat) \<Rightarrow> pynum \<Rightarrow> pynum \<Rightarrow> signal + pynum" where
  "float_op f a b =
     (case as_float a of Inl e \<Rightarrow> Inl e
      | Inr x \<Rightarrow> (case as_float b of Inl e \<Rightarrow> Inl e | Inr y \<Rightarrow> Inr (PFloat (f x y))))"

definition int_truediv :: "int \<Rightarrow> int \<Rightarrow> signal + pynum" where
  "int_truediv i j =
     (case to_double (of_int i / of_int j) of
        Fin r \<Rightarrow> Inr (PFloat (Fin r))
      | _ \<Rightarrow> Inl (HostException OverflowError))"

fun num_add :: "pynum \<Rightarrow> pynum \<Rightarrow> signal + pynum" where
  "num_add (PInt i) (PInt j) = Inr (PInt (i + j))"
| "num_add a b = float_op fadd a b"

fun num_sub :: "pynum \<Rightarrow> pynum \<Rightarrow> signal + pynum" where
  "num_sub (PInt i) (PInt j) = Inr (PInt (i - j))"
| "num_sub a b = float_op fsub a b"

fun num_mul :: "pynum \<Rightarrow> pynum \<Rightarrow> signal + pynum" where
  "num_mul (PInt i) (PInt j) = Inr (PInt (i * j))"
| "num_mul a b = float_op fmul a b"

fun num_truediv :: "pynum \<Rightarrow> pynum \<Rightarrow> signal + pynum" where
  "num_truediv (PInt i) (PInt j) = int_truediv i j"
| "num_truediv a b = float_op fdiv a b"

fun num_mod :: "pynum \<Rightarrow> pynum \<Rightarrow> signal + pynum" where
  "num_mod (PInt i) (PInt j) = Inr (PInt (i mod j))"
| "num_mod a b = float_op frem a b"

text \<open>
  A power of two ints with an exponent that is not negative is an int. Every other power
  is computed by the C library's \<^verbatim>\<open>pow\<close> and is left out.
\<close>

fun num_pow :: "pynum \<Rightarrow> pynum \<Rightarrow> signal + pynum" where
  "num_pow (PInt i) (PInt j) = (if 0 \<le> j then Inr (PInt (i ^ nat j)) else Inl Unmodelled)"
| "num_pow a b = Inl Unmodelled"

fun num_neg :: "pynum \<Rightarrow> pynum" where
  "num_neg (PInt i) = PInt (- i)"
| "num_neg (PFloat x) = PFloat (fneg x)"

fun val_of :: "pynum \<Rightarrow> val" where
  "val_of (PInt i) = VInt i"
| "val_of (PFloat x) = VFloat x"

definition as_val :: "signal + pynum \<Rightarrow> signal + val" where
  "as_val r = (case r of Inl e \<Rightarrow> Inl e | Inr n \<Rightarrow> Inr (val_of n))"

subsection \<open>Truthiness and text\<close>

definition is_truthy :: "val \<Rightarrow> bool" where
  "is_truthy v =
     (if v = VNil \<or> v = VBool False then False
      else if (case num_of v of Some n \<Rightarrow> num_eq n (PInt 0) | None \<Rightarrow> False) then False
      else if (case v of VStr s \<Rightarrow> s = [] | _ \<Rightarrow> False) then False
      else True)"

fun join :: "string \<Rightarrow> string list \<Rightarrow> string" where
  "join sep [] = []"
| "join sep [x] = x"
| "join sep (x # y # ys) = x @ sep @ join sep (y # ys)"

definition function_str :: "func \<Rightarrow> string" where
  "function_str f =
     (let params_str = join '', '' (func_params f) in
      if is_anonymous f then ''<anonymous function('' @ params_str @ '')>''
      else ''<function '' @ func_name f @ ''('' @ params_str @ '')>'')"

text \<open>\<open>None\<close> is returned where the text is the host's \<^verbatim>\<open>repr\<close> of a float, list or dict.\<close>

fun stringify :: "state \<Rightarrow> val \<Rightarrow> string option" where
  "stringify st VNil = Some ''nil''"
| "stringify st (VFloat x) =
     (if is_integer x then (case x of Fin a \<Rightarrow> Some (show_int \<lfloor>a\<rfloor>) | _ \<Rightarrow> None)
      else (case x of Fin a \<Rightarrow> None | PInf \<Rightarrow> Some ''inf'' | NInf \<Rightarrow> Some ''-inf''
            | NaN \<Rightarrow> Some ''nan''))"
| "stringify st (VFunc a) = Some (function_str (funcs st a))"
| "stringify st (VBuiltin n) = Some (''<built-in function '' @ n @ ''>'')"
| "stringify st (VInt i) = Some (show_int i)"
| "stringify st (VBool b) = Some (if b then ''True'' else ''False'')"
| "stringify st (VStr s) = Some s"
| "stringify st (VArray a) = None"
| "stringify st (VDict d) = None"

subsection \<open>Equality\<close>

text \<open>
  \<^verbatim>\<open>left == right\<close> on Python objects. Numbers (bools included) are equal when their
  values are; strings when their characters are; \<^verbatim>\<open>None\<close> only to itself; a Function or
  a built-in only to the same object; lists and dicts structurally; objects of different
  kinds are unequal. Inside a list or dict two items are first tested for identity, which
  decides the comparison of a list with itself. The first argument bounds the nesting of
  the comparison: Python raises \<^verbatim>\<open>RecursionError\<close> when it is too deep.
\<close>

definition key_eq :: "val \<Rightarrow> val \<Rightarrow> bool" where
  "key_eq k1 k2 =
     (case (num_of k1, num_of k2) of (Some a, Some b) \<Rightarrow> num_eq a b | _ \<Rightarrow> k1 = k2)"

fun dict_lookup :: "(val \<times> val) list \<Rightarrow> val \<Rightarrow> val option" where
  "dict_lookup [] k = None"
| "dict_lookup ((k', v) # es) k = (if key_eq k' k then Some v else dict_lookup es k)"

text \<open>
  \<open>item_eq\<close>, \<open>items_eq\<close> and \<open>entries_eq\<close> take the comparison of the nested level as
  their first argument.
\<close>

definition item_eq :: "(val \<Rightarrow> val \<Rightarrow> signal + bool) \<Rightarrow> val \<Rightarrow> val \<Rightarrow> signal + bool" where
  "item_eq eq x y =
     (if x = VFloat NaN \<and> y = VFloat NaN then Inl Unmodelled
      else if (case x of VArray a \<Rightarrow> y = VArray a | _ \<Rightarrow> False) then Inr True
      else eq x y)"

fun items_eq :: "(val \<Rightarrow> val \<Rightarrow> signal + bool) \<Rightarrow> val list \<Rightarrow> val list \<Rightarrow> signal + bool" where
  "items_eq eq (x # xs) (y # ys) =
     (case item_eq eq x y of
        Inl e \<Rightarrow> Inl e
      | Inr b \<Rightarrow> (if b then items_eq eq xs ys else Inr False))"
| "items_eq eq xs ys = Inr True"

fun entries_eq ::
  "(val \<Rightarrow> val \<Rightarrow> signal + bool) \<Rightarrow> (val \<times> val) list \<Rightarrow> (val \<times> val) list \<Rightarrow> signal + bool" where
  "entries_eq eq [] b = Inr True"
| "entries_eq eq ((k, v) # es) b =
     (case dict_lookup b k of
        None \<Rightarrow> Inr False
      | Some v' \<Rightarrow>
          (case item_eq eq v v' of
             Inl e \<Rightarrow> Inl e
           | Inr c \<Rightarrow> (if c then entries_eq eq es b else Inr False)))"

primrec py_eq :: "nat \<Rightarrow> (nat \<Rightarrow> val list) \<Rightarrow> val \<Rightarrow> val \<Rightarrow> signal + bool" where
  "py_eq 0 h l r = Inl (HostException RecursionError)"
| "py_eq (Suc d) h l r =
     (case (num_of l, num_of r) of
        (Some a, Some b) \<Rightarrow> Inr (num_eq a b)
      | _ \<Rightarrow>
        (case l of
           VStr a \<Rightarrow> Inr (r = VStr a)
         | VNil \<Rightarrow> Inr (r = VNil)
         | VFunc a \<Rightarrow> Inr (r = VFunc a)
         | VBuiltin a \<Rightarrow> Inr (r = VBuiltin a)
         | VArray a \<Rightarrow>
             (case r of
                VArray b \<Rightarrow>
                  (if length (h a) \<noteq> length (h b) then Inr False
                   else items_eq (py_eq d h) (h a) (h b))
              | _ \<Rightarrow> Inr False)
         | VDict a \<Rightarrow>
             (case r of
                VDict b \<Rightarrow>
                  (if length a \<noteq> length b then Inr False else entries_eq (py_eq d h) a b)
              | _ \<Rightarrow> Inr False)
         | _ \<Rightarrow> Inr False))"


section \<open>Environments\<close>

text \<open>
  Environment objects live in the store \<open>envs\<close> and are numbered in the order of their
  creation, so the parent of an environment has a smaller address than the environment
  itself; the test \<open>p < a\<close> states this and makes the walk up the chain well-founded.
  \<open>env_get\<close> and \<open>env_assign\<close> return \<open>None\<close> where the source raises.
\<close>

definition new_environment :: "nat option \<Rightarrow> state \<Rightarrow> nat \<times> state" where
  "new_environment p st =
     (next_env st,
      st\<lparr>envs := (envs st)(next_env st := \<lparr>parent = p, variables = Map.empty\<rparr>),
         next_env := Suc (next_env st)\<rparr>)"

definition env_define :: "nat \<Rightarrow> string \<Rightarrow> val \<Rightarrow> state \<Rightarrow> state" where
  "env_define a name v st =
     st\<lparr>envs := (envs st)(a := (envs st a)\<lparr>variables := (variables (envs st a))(name \<mapsto> v)\<rparr>)\<rparr>"

function env_get :: "(nat \<Rightarrow> environment) \<Rightarrow> nat \<Rightarrow> string \<Rightarrow> val option" where
  "env_get h a name =
     (case variables (h a) name of
        Some v \<Rightarrow> Some v
      | None \<Rightarrow>
          (case parent (h a) of
             Some p \<Rightarrow> (if p < a then env_get h p name else None)
           | None \<Rightarrow> None))"
  by pat_completeness auto
termination
  by (relation "measure (\<lambda>(h, a, name). a)") auto

function env_assign ::
  "(nat \<Rightarrow> environment) \<Rightarrow> nat \<Rightarrow> string \<Rightarrow> val \<Rightarrow> (nat \<Rightarrow> environment) option" where
  "env_assign h a name v =
     (if name \<in> dom (variables (h a))
      then Some (h(a := (h a)\<lparr>variables := (variables (h a))(name \<mapsto> v)\<rparr>))
      else (case parent (h a) of
              Some p \<Rightarrow> (if p < a then env_assign h p name v else None)
            | None \<Rightarrow> None))"
  by pat_completeness auto
termination
  by (relation "measure (\<lambda>(h, a, name, v). a)") auto

declare env_get.simps [simp del] env_assign.simps [simp del]

section \<open>The evaluator\<close>

text \<open>
  Every method of the class \<^verbatim>\<open>Evaluator\<close> takes the state and returns what it returns or
  raises, together with the new state. The recursive calls \<^verbatim>\<open>self.evaluate(child)\<close> of a
  \<^verbatim>\<open>visit_\<close> method go through the first argument \<open>ev\<close>, which is the evaluator at the
  next level of the native call stack.
\<close>

type_synonym evaluator = "node \<Rightarrow> state \<Rightarrow> val result"

definition raise :: "runtime_error \<Rightarrow> state \<Rightarrow> 'a result" where
  "raise e st = (Inl (FluxRuntimeError e), st)"

definition bind_result :: "'a result \<Rightarrow> ('a \<Rightarrow> state \<Rightarrow> 'b result) \<Rightarrow> 'b result" where
  "bind_result m f = (case m of (Inl e, st) \<Rightarrow> (Inl e, st) | (Inr v, st) \<Rightarrow> f v st)"

definition lift :: "signal + 'a \<Rightarrow> state \<Rightarrow> 'a result" where
  "lift r st = (r, st)"

text \<open>\<^verbatim>\<open>evaluate\<close> returns \<^verbatim>\<open>None\<close> for an absent node.\<close>

fun evaluate :: "evaluator \<Rightarrow> node option \<Rightarrow> state \<Rightarrow> val result" where
  "evaluate ev None st = (Inr VNil, st)"
| "evaluate ev (Some n) st = ev n st"

fun eval_list :: "evaluator \<Rightarrow> node list \<Rightarrow> state \<Rightarrow> (val list) result" where
  "eval_list ev [] st = (Inr [], st)"
| "eval_list ev (n # ns) st =
     bind_result (ev n st) (\<lambda>v st1.
     bind_result (eval_list ev ns st1) (\<lambda>vs st2. (Inr (v # vs), st2)))"

subsection \<open>Blocks\<close>

text \<open>
  The loop of \<^verbatim>\<open>execute_block\<close>. Its test \<^verbatim>\<open>isinstance(stmt, Return)\<close> names the
  exception class \<^verbatim>\<open>Return\<close> that the module defines after importing the node class of
  the same name; no statement is an instance of it, so every statement is evaluated by
  \<^verbatim>\<open>self.evaluate(stmt)\<close>. The flag \<^verbatim>\<open>in_tail_position\<close> is put back only when the
  statement returns, not when it raises.
\<close>

fun exec_statements :: "evaluator \<Rightarrow> node list \<Rightarrow> val \<Rightarrow> state \<Rightarrow> val result" where
  "exec_statements ev [] result st = (Inr result, st)"
| "exec_statements ev (stmt # rest) result st =
     (let old_tail_pos = in_tail_position st;
          st1 = (if rest = []
                 then st\<lparr>in_tail_position := (in_tail_position st \<or> current_function st \<noteq> None)\<rparr>
                 else st)
      in bind_result (ev stmt st1) (\<lambda>v st2.
           exec_statements ev rest v (st2\<lparr>in_tail_position := old_tail_pos\<rparr>)))"

definition execute_block :: "evaluator \<Rightarrow> node list \<Rightarrow> nat \<Rightarrow> state \<Rightarrow> val result" where
  "execute_block ev statements e st =
     (let previous_env = env st;
          (r, st1) = exec_statements ev statements VNil (st\<lparr>env := e\<rparr>)
      in (r, st1\<lparr>env := previous_env\<rparr>))"

definition visit_block :: "evaluator \<Rightarrow> node list \<Rightarrow> state \<Rightarrow> val result" where
  "visit_block ev statements st =
     (let (e, st1) = new_environment (Some (env st)) st in execute_block ev statements e st1)"


subsection \<open>Operators\<close>

text \<open>
  \<open>check_number_operands\<close> gives the two numbers when the check of the source passes and
  \<open>None\<close> when it raises. A bool passes it, being an \<^verbatim>\<open>int\<close> for \<^verbatim>\<open>isinstance\<close>.
\<close>

definition check_number_operands :: "val \<Rightarrow> val \<Rightarrow> (pynum \<times> pynum) option" where
  "check_number_operands left right =
     (case num_of left of
        None \<Rightarrow> None
      | Some a \<Rightarrow> (case num_of right of None \<Rightarrow> None | Some b \<Rightarrow> Some (a, b)))"

definition with_numbers :: "val \<Rightarrow> val \<Rightarrow> (pynum \<Rightarrow> pynum \<Rightarrow> signal + val) \<Rightarrow> signal + val" where
  "with_numbers left right f =
     (case check_number_operands left right of
        None \<Rightarrow> Inl (FluxRuntimeError OperandsMustBeNumbers)
      | Some (a, b) \<Rightarrow> f a b)"

definition is_function :: "val \<Rightarrow> bool" where
  "is_function v = (case v of VFunc a \<Rightarrow> True | _ \<Rightarrow> False)"

definition concat_stringified :: "state \<Rightarrow> val \<Rightarrow> (string \<Rightarrow> string) \<Rightarrow> signal + val" where
  "concat_stringified st v k =
     (if is_number v \<or> is_function v
      then (case stringify st v of Some s \<Rightarrow> Inr (VStr (k s)) | None \<Rightarrow> Inl Unmodelled)
      else Inl (FluxRuntimeError PlusOperands))"

definition plus :: "state \<Rightarrow> val \<Rightarrow> val \<Rightarrow> signal + val" where
  "plus st left right =
     (case check_number_operands left right of
        Some (a, b) \<Rightarrow> as_val (num_add a b)
      | None \<Rightarrow>
          (case left of
             VStr l \<Rightarrow>
               (case right of
                  VStr r \<Rightarrow> Inr (VStr (l @ r))
                | _ \<Rightarrow> concat_stringified st right (\<lambda>s. l @ s))
           | _ \<Rightarrow>
               (case right of
                  VStr r \<Rightarrow> concat_stringified st left (\<lambda>s. s @ r)
                | _ \<Rightarrow> Inl (FluxRuntimeError PlusOperands))))"

definition equals :: "nat \<Rightarrow> state \<Rightarrow> val \<Rightarrow> val \<Rightarrow> (bool \<Rightarrow> bool) \<Rightarrow> signal + val" where
  "equals d st left right k =
     (case py_eq d (arrays st) left right of Inl e \<Rightarrow> Inl e | Inr b \<Rightarrow> Inr (VBool (k b)))"

text \<open>
  The part of \<^verbatim>\<open>visit_bin_op\<close> that follows the evaluation of the two operands. The
  first argument bounds the nesting of an equality test.
\<close>

definition bin_op :: "nat \<Rightarrow> state \<Rightarrow> token_type \<Rightarrow> val \<Rightarrow> val \<Rightarrow> signal + val" where
  "bin_op d st op_type left right =
     (if op_type = PLUS then plus st left right
      else if op_type = MINUS then with_numbers left right (\<lambda>a b. as_val (num_sub a b))
      else if op_type = MULTIPLY then with_numbers left right (\<lambda>a b. as_val (num_mul a b))
      else if op_type = DIVIDE then
        with_numbers left right (\<lambda>a b.
          if num_eq b (PInt 0) then Inl (FluxRuntimeError DivisionByZero)
          else as_val (num_truediv a b))
      else if op_type = EXPONENT then with_numbers left right (\<lambda>a b. as_val (num_pow a b))
      else if op_type = REM then
        with_numbers left right (\<lambda>a b.
          if num_eq b (PInt 0) then Inl (FluxRuntimeError RemainderByZero)
          else as_val (num_mod a b))
      else if op_type \<in> {LT, GT, LTE, GTE} then
        with_numbers left right (\<lambda>a b.
          Inr (VBool (if op_type = LT then num_less a b
                      else if op_type = GT then num_less b a
                      else if op_type = LTE then num_le a b
                      else num_le b a)))
      else if op_type = EQEQ then equals d st left right (\<lambda>b. b)
      else if op_type = NOTEQ then equals d st left right (\<lambda>b. \<not> b)
      else if op_type = AND then Inr (VBool (is_truthy left \<and> is_truthy right))
      else if op_type = OR then Inr (VBool (is_truthy left \<or> is_truthy right))
      else Inl (FluxRuntimeError UnknownBinaryOperator))"

definition visit_bin_op :: "evaluator \<Rightarrow> nat \<Rightarrow> node \<Rightarrow> token_type \<Rightarrow> node \<Rightarrow> state \<Rightarrow> val result" where
  "visit_bin_op ev d left operator right st =
     bind_result (ev left st) (\<lambda>l st1.
     bind_result (ev right st1) (\<lambda>r st2.
       (bin_op d st2 operator l r, st2)))"

definition visit_unary_op :: "evaluator \<Rightarrow> token_type \<Rightarrow> node \<Rightarrow> state \<Rightarrow> val result" where
  "visit_unary_op ev operator right st =
     bind_result (ev right st) (\<lambda>v st1.
       if operator = MINUS then
         (case num_of v of
            None \<Rightarrow> raise OperandMustBeNumber st1
          | Some n \<Rightarrow> (Inr (val_of (num_neg n)), st1))
       else if operator = NOT then (Inr (VBool (\<not> is_truthy v)), st1)
       else raise UnknownUnaryOperator st1)"

subsection \<open>Variables\<close>

definition visit_var :: "string \<Rightarrow> state \<Rightarrow> val result" where
  "visit_var name st =
     (case env_get (envs st) (env st) name of
        None \<Rightarrow> raise (UndefinedVariable name) st
      | Some v \<Rightarrow> (Inr v, st))"

definition visit_var_assign :: "evaluator \<Rightarrow> string \<Rightarrow> node \<Rightarrow> state \<Rightarrow> val result" where
  "visit_var_assign ev name value st =
     bind_result (ev value st) (\<lambda>v st1. (Inr v, env_define (env st1) name v st1))"

definition assign_in :: "nat \<Rightarrow> string \<Rightarrow> val \<Rightarrow> state \<Rightarrow> val result" where
  "assign_in a name v st =
     (case env_assign (envs st) a name v of
        None \<Rightarrow> raise (CannotReassign name) st
      | Some h \<Rightarrow> (Inr v, st\<lparr>envs := h\<rparr>))"

definition visit_var_reassign :: "evaluator \<Rightarrow> string \<Rightarrow> node \<Rightarrow> state \<Rightarrow> val result" where
  "visit_var_reassign ev name value st =
     bind_result (ev value st) (\<lambda>v st1. assign_in (env st1) name v st1)"

subsection \<open>Conditionals, loops and match\<close>

definition visit_if :: "evaluator \<Rightarrow> node \<Rightarrow> node \<Rightarrow> node option \<Rightarrow> state \<Rightarrow> val result" where
  "visit_if ev condition then_branch else_branch st =
     bind_result (ev condition st) (\<lambda>c st1.
       if is_truthy c then ev then_branch st1
       else (case else_branch of Some n \<Rightarrow> ev n st1 | None \<Rightarrow> (Inr VNil, st1)))"

definition visit_conditional_expr :: "evaluator \<Rightarrow> node \<Rightarrow> node \<Rightarrow> node \<Rightarrow> state \<Rightarrow> val result" where
  "visit_conditional_expr ev condition then_expr else_expr st =
     bind_result (ev condition st) (\<lambda>c st1.
       if is_truthy c then ev then_expr st1 else ev else_expr st1)"

text \<open>
  A Python \<^verbatim>\<open>while\<close> loop is a recursion on an iteration bound (the fuel); the bound is
  not part of the source, and a loop that uses it up ends with \<open>OutOfFuel\<close>.
\<close>

primrec while_loop :: "evaluator \<Rightarrow> nat \<Rightarrow> node \<Rightarrow> node \<Rightarrow> val \<Rightarrow> state \<Rightarrow> val result" where
  "while_loop ev 0 condition body result st = (Inl OutOfFuel, st)"
| "while_loop ev (Suc n) condition body result st =
     bind_result (ev condition st) (\<lambda>c st1.
       if is_truthy c
       then bind_result (ev body st1) (\<lambda>r st2. while_loop ev n condition body r st2)
       else (Inr result, st1))"

definition visit_while :: "evaluator \<Rightarrow> nat \<Rightarrow> node \<Rightarrow> node \<Rightarrow> state \<Rightarrow> val result" where
  "visit_while ev fuel condition body st = while_loop ev fuel condition body VNil st"

primrec repeat_loop :: "evaluator \<Rightarrow> nat \<Rightarrow> node \<Rightarrow> node \<Rightarrow> state \<Rightarrow> val result" where
  "repeat_loop ev 0 body condition st = (Inl OutOfFuel, st)"
| "repeat_loop ev (Suc n) body condition st =
     bind_result (ev body st) (\<lambda>result st1.
     bind_result (ev condition st1) (\<lambda>c st2.
       if is_truthy c then (Inr result, st2) else repeat_loop ev n body condition st2))"

definition visit_repeat_until :: "evaluator \<Rightarrow> nat \<Rightarrow> node \<Rightarrow> node \<Rightarrow> state \<Rightarrow> val result" where
  "visit_repeat_until ev fuel body condition st = repeat_loop ev fuel body condition st"

primrec for_loop ::
  "evaluator \<Rightarrow> nat \<Rightarrow> string \<Rightarrow> pynum \<Rightarrow> pynum \<Rightarrow> node list \<Rightarrow> nat \<Rightarrow> pynum \<Rightarrow> val \<Rightarrow> state
   \<Rightarrow> val result" where
  "for_loop ev 0 var_name step end_v body loop_env current result st = (Inl OutOfFuel, st)"
| "for_loop ev (Suc n) var_name step end_v body loop_env current result st =
     (if (num_less (PInt 0) step \<and> num_le current end_v)
         \<or> (num_less step (PInt 0) \<and> num_le end_v current)
      then
        (let (body_env, st1) = new_environment (Some loop_env) st in
         bind_result (execute_block ev body body_env st1) (\<lambda>r st2.
           (case num_add current step of
              Inl e \<Rightarrow> (Inl e, st2)
            | Inr current' \<Rightarrow>
                bind_result (assign_in loop_env var_name (val_of current') st2) (\<lambda>u st3.
                  for_loop ev n var_name step end_v body loop_env current' r st3))))
      else (Inr result, st))"

definition visit_for ::
  "evaluator \<Rightarrow> nat \<Rightarrow> string \<Rightarrow> node \<Rightarrow> node \<Rightarrow> node option \<Rightarrow> node list \<Rightarrow> state \<Rightarrow> val result" where
  "visit_for ev fuel var_name start_n end_n step_n body st =
     bind_result (ev start_n st) (\<lambda>start st1.
     bind_result (ev end_n st1) (\<lambda>end_v st2.
     bind_result (case step_n of Some n \<Rightarrow> ev n st2 | None \<Rightarrow> (Inr (VInt 1), st2)) (\<lambda>step st3.
       (case num_of start of
          None \<Rightarrow> raise StartNotNumber st3
        | Some s \<Rightarrow>
       (case num_of end_v of
          None \<Rightarrow> raise EndNotNumber st3
        | Some e \<Rightarrow>
       (case num_of step of
          None \<Rightarrow> raise StepNotNumber st3
        | Some k \<Rightarrow>
            if num_eq k (PInt 0) then raise StepZero st3
            else
              (let (loop_env, st4) = new_environment (Some (env st3)) st3;
                   st5 = env_define loop_env var_name start st4
               in for_loop ev fuel var_name k e body loop_env s VNil st5)))))))"

fun match_cases :: "evaluator \<Rightarrow> nat \<Rightarrow> val \<Rightarrow> (node \<times> node) list \<Rightarrow> state \<Rightarrow> val result" where
  "match_cases ev d v [] st = raise NoMatchingCase st"
| "match_cases ev d v ((pattern, body) # cases) st =
     bind_result (ev pattern st) (\<lambda>p st1.
       (case py_eq d (arrays st1) v p of
          Inl e \<Rightarrow> (Inl e, st1)
        | Inr b \<Rightarrow> if b then ev body st1 else match_cases ev d v cases st1))"

definition visit_match :: "evaluator \<Rightarrow> nat \<Rightarrow> node \<Rightarrow> (node \<times> node) list \<Rightarrow> state \<Rightarrow> val result" where
  "visit_match ev d expression cases st =
     bind_result (ev expression st) (\<lambda>v st1. match_cases ev d v cases st1)"


subsection \<open>Functions and calls\<close>

definition new_function :: "func \<Rightarrow> state \<Rightarrow> nat \<times> state" where
  "new_function f st =
     (next_func st, st\<lparr>funcs := (funcs st)(next_func st := f), next_func := Suc (next_func st)\<rparr>)"

definition visit_lambda :: "string list \<Rightarrow> node list \<Rightarrow> state \<Rightarrow> val result" where
  "visit_lambda ps statements st =
     (let (a, st1) = new_function
            \<lparr>func_name = ''<anonymous>'', func_params = ps, func_body = statements,
             closure = env st, is_anonymous = True\<rparr> st
      in (Inr (VFunc a), st1))"

definition visit_func_def :: "string \<Rightarrow> string list \<Rightarrow> node list \<Rightarrow> state \<Rightarrow> val result" where
  "visit_func_def name ps statements st =
     (let (a, st1) = new_function
            \<lparr>func_name = name, func_params = ps, func_body = statements,
             closure = env st, is_anonymous = False\<rparr> st
      in (Inr (VFunc a), env_define (env st1) name (VFunc a) st1))"

text \<open>The registry of built-ins holds one routine, \<^verbatim>\<open>len\<close>.\<close>

definition builtin_len :: "val list \<Rightarrow> state \<Rightarrow> val result" where
  "builtin_len arguments st =
     (if length arguments \<noteq> 1 then raise (LenArity (length arguments)) st
      else (case hd arguments of
              VNil \<Rightarrow> raise LenNone st
            | VArray a \<Rightarrow> (Inr (VInt (int (length (arrays st a)))), st)
            | VStr s \<Rightarrow> (Inr (VInt (int (length s))), st)
            | VDict d \<Rightarrow> (Inr (VInt (int (length d))), st)
            | _ \<Rightarrow> raise LenUnsupported st))"

text \<open>
  \<^verbatim>\<open>Function.call\<close>. \<open>enter_call\<close> is its part before the loop: the check of the number
  of arguments, the new Environment on top of the closure with the parameters bound, and
  the switch of \<^verbatim>\<open>current_function\<close> and \<^verbatim>\<open>env\<close>; it gives the address of the call
  Environment and the two saved fields. \<open>trampoline\<close> is the loop \<^verbatim>\<open>while True\<close>, with
  the handlers of \<^verbatim>\<open>TailCall\<close> and \<^verbatim>\<open>Return\<close>; its recursion is on an iteration bound.
  The body is executed by the same evaluator \<open>ev\<close> at every iteration.
\<close>

fun define_all :: "nat \<Rightarrow> (string \<times> val) list \<Rightarrow> state \<Rightarrow> state" where
  "define_all a [] st = st"
| "define_all a ((param, arg) # bs) st = define_all a bs (env_define a param arg st)"

fun assign_all :: "nat \<Rightarrow> (string \<times> val) list \<Rightarrow> state \<Rightarrow> val result" where
  "assign_all a [] st = (Inr VNil, st)"
| "assign_all a ((param, arg) # bs) st =
     bind_result (assign_in a param arg st) (\<lambda>u st1. assign_all a bs st1)"

definition restore :: "nat option \<Rightarrow> nat \<Rightarrow> state \<Rightarrow> state" where
  "restore prev_function prev_env st = st\<lparr>current_function := prev_function, env := prev_env\<rparr>"

definition enter_call ::
  "nat \<Rightarrow> val list \<Rightarrow> state \<Rightarrow> (runtime_error + (nat \<times> nat option \<times> nat)) \<times> state" where
  "enter_call f arguments st =
     (let fn = funcs st f in
      if length arguments \<noteq> length (func_params fn)
      then (Inl (ArityMismatch (length (func_params fn)) (length arguments)), st)
      else
        (let (e, st1) = new_environment (Some (closure fn)) st;
             st2 = define_all e (zip (func_params fn) arguments) st1
         in (Inr (e, current_function st2, env st2),
             st2\<lparr>current_function := Some f, env := e\<rparr>)))"

definition call_with ::
  "(nat \<Rightarrow> nat \<Rightarrow> nat option \<Rightarrow> nat \<Rightarrow> state \<Rightarrow> val result) \<Rightarrow> nat \<Rightarrow> val list \<Rightarrow> state
   \<Rightarrow> val result" where
  "call_with loop f arguments st =
     (case enter_call f arguments st of
        (Inl err, st1) \<Rightarrow> raise err st1
      | (Inr (e, prev_function, prev_env), st1) \<Rightarrow> loop f e prev_function prev_env st1)"

primrec trampoline ::
  "evaluator \<Rightarrow> nat \<Rightarrow> nat \<Rightarrow> nat \<Rightarrow> nat option \<Rightarrow> nat \<Rightarrow> state \<Rightarrow> val result" where
  "trampoline ev 0 f e prev_function prev_env st = (Inl OutOfFuel, st)"
| "trampoline ev (Suc n) f e prev_function prev_env st =
     (case execute_block ev (func_body (funcs st f)) e st of
        (Inr result, st1) \<Rightarrow> (Inr result, restore prev_function prev_env st1)
      | (Inl (TailCall g arguments), st1) \<Rightarrow>
          if g \<noteq> f
          then call_with (trampoline ev n) g arguments (restore prev_function prev_env st1)
          else if length arguments \<noteq> length (func_params (funcs st1 f))
          then raise (ArityMismatch (length (func_params (funcs st1 f))) (length arguments)) st1
          else bind_result (assign_all e (zip (func_params (funcs st1 f)) arguments) st1)
                 (\<lambda>u st2. trampoline ev n f e prev_function prev_env st2)
      | (Inl (ReturnException v), st1) \<Rightarrow> (Inr v, restore prev_function prev_env st1)
      | (Inl s, st1) \<Rightarrow> (Inl s, st1))"

definition call :: "evaluator \<Rightarrow> nat \<Rightarrow> nat \<Rightarrow> val list \<Rightarrow> state \<Rightarrow> val result" where
  "call ev fuel f arguments st = call_with (trampoline ev fuel) f arguments st"

definition visit_func_call :: "evaluator \<Rightarrow> nat \<Rightarrow> node \<Rightarrow> node list \<Rightarrow> state \<Rightarrow> val result" where
  "visit_func_call ev fuel callee args st =
     bind_result (ev callee st) (\<lambda>c st1.
       (case c of
          VFunc f \<Rightarrow>
            bind_result (eval_list ev args st1) (\<lambda>arguments st2.
              if in_tail_position st2 \<and> current_function st2 = Some f
              then (Inl (TailCall f arguments), st2)
              else call ev fuel f arguments st2)
        | VBuiltin name \<Rightarrow>
            bind_result (eval_list ev args st1) (\<lambda>arguments st2. builtin_len arguments st2)
        | _ \<Rightarrow> raise NotCallable st1))"

text \<open>
  \<^verbatim>\<open>visit_return\<close> sets \<^verbatim>\<open>in_tail_position\<close> for the evaluation of its expression and
  puts the old flag back in its \<^verbatim>\<open>finally\<close> clause, whatever is raised. When the
  expression is a call and the flag is (still) set after its evaluation, the callee and
  the arguments are evaluated a second time.
\<close>

definition visit_return :: "evaluator \<Rightarrow> node option \<Rightarrow> state \<Rightarrow> val result" where
  "visit_return ev value st =
     (let was_tail = in_tail_position st;
          (r, st') =
            bind_result (evaluate ev value (st\<lparr>in_tail_position := (current_function st \<noteq> None)\<rparr>))
              (\<lambda>v st1.
                 (case value of
                    Some (FuncCall callee args) \<Rightarrow>
                      if in_tail_position st1 then
                        bind_result (ev callee st1) (\<lambda>c st2.
                        bind_result (eval_list ev args st2) (\<lambda>arguments st3.
                          (case c of
                             VFunc f \<Rightarrow>
                               if current_function st3 = Some f
                               then (Inl (TailCall f arguments), st3)
                               else (Inl (ReturnException v), st3)
                           | _ \<Rightarrow> (Inl (ReturnException v), st3))))
                      else (Inl (ReturnException v), st1)
                  | _ \<Rightarrow> (Inl (ReturnException v), st1)))
      in (r, st'\<lparr>in_tail_position := was_tail\<rparr>))"

subsection \<open>Arrays, dicts and print\<close>

definition new_array :: "val list \<Rightarrow> state \<Rightarrow> nat \<times> state" where
  "new_array vs st =
     (next_array st,
      st\<lparr>arrays := (arrays st)(next_array st := vs), next_array := Suc (next_array st)\<rparr>)"

definition visit_array :: "evaluator \<Rightarrow> node list \<Rightarrow> state \<Rightarrow> val result" where
  "visit_array ev elements st =
     bind_result (eval_list ev elements st) (\<lambda>vs st1.
       (let (a, st2) = new_array vs st1 in (Inr (VArray a), st2)))"

text \<open>\<^verbatim>\<open>isinstance(index, int)\<close> holds for an int and for a bool.\<close>

fun int_index :: "val \<Rightarrow> int option" where
  "int_index (VInt i) = Some i"
| "int_index (VBool b) = Some (if b then 1 else 0)"
| "int_index v = None"

definition visit_array_assign :: "evaluator \<Rightarrow> string \<Rightarrow> node \<Rightarrow> node \<Rightarrow> state \<Rightarrow> val result" where
  "visit_array_assign ev array_name index value st =
     (case env_get (envs st) (env st) array_name of
        None \<Rightarrow> raise (UndefinedVariable array_name) st
      | Some array \<Rightarrow>
          bind_result (ev index st) (\<lambda>i st1.
          bind_result (ev value st1) (\<lambda>v st2.
            (case array of
               VArray a \<Rightarrow>
                 (case int_index i of
                    None \<Rightarrow> raise IndexNotInteger st2
                  | Some k \<Rightarrow>
                      if k < 0 \<or> int (length (arrays st2 a)) \<le> k
                      then raise (IndexOutOfBounds k) st2
                      else bind_result
                             (assign_in (env st2) array_name array
                                (st2\<lparr>arrays := (arrays st2)(a := (arrays st2 a)[nat k := v])\<rparr>))
                             (\<lambda>u st3. (Inr v, st3)))
             | _ \<Rightarrow> raise AssignNonArray st2))))"

definition visit_array_access :: "evaluator \<Rightarrow> string \<Rightarrow> node \<Rightarrow> state \<Rightarrow> val result" where
  "visit_array_access ev array_name index st =
     (case env_get (envs st) (env st) array_name of
        None \<Rightarrow> raise (UndefinedVariable array_name) st
      | Some array \<Rightarrow>
          bind_result (ev index st) (\<lambda>i st1.
            (case array of
               VArray a \<Rightarrow>
                 (case int_index i of
                    None \<Rightarrow> raise IndexNotInteger st1
                  | Some k \<Rightarrow>
                      if k < 0 \<or> int (length (arrays st1 a)) \<le> k
                      then raise (IndexOutOfBounds k) st1
                      else (Inr (arrays st1 a ! nat k), st1))
             | _ \<Rightarrow> raise IndexNonArray st1)))"

text \<open>
  A dict display stores its entries one by one. A list or a dict is not hashable and
  cannot be a key (\<^verbatim>\<open>TypeError\<close>); a key equal to an earlier one keeps the earlier key
  and takes the new value. The place of a NaN key depends on the identity of the object.
\<close>

fun dict_update :: "(val \<times> val) list \<Rightarrow> val \<Rightarrow> val \<Rightarrow> (val \<times> val) list" where
  "dict_update [] k v = [(k, v)]"
| "dict_update ((k', v') # es) k v =
     (if key_eq k' k then (k', v) # es else (k', v') # dict_update es k v)"

definition dict_store :: "(val \<times> val) list \<Rightarrow> val \<Rightarrow> val \<Rightarrow> signal + (val \<times> val) list" where
  "dict_store d k v =
     (case k of
        VArray a \<Rightarrow> Inl (HostException TypeError)
      | VDict es \<Rightarrow> Inl (HostException TypeError)
      | VFloat x \<Rightarrow> (if x = NaN then Inl Unmodelled else Inr (dict_update d k v))
      | _ \<Rightarrow> Inr (dict_update d k v))"

fun eval_pairs :: "evaluator \<Rightarrow> (node \<times> node) list \<Rightarrow> (val \<times> val) list \<Rightarrow> state \<Rightarrow> val result" where
  "eval_pairs ev [] d st = (Inr (VDict d), st)"
| "eval_pairs ev ((k, v) # ps) d st =
     bind_result (ev k st) (\<lambda>key st1.
     bind_result (ev v st1) (\<lambda>value st2.
       (case dict_store d key value of
          Inl e \<Rightarrow> (Inl e, st2)
        | Inr d' \<Rightarrow> eval_pairs ev ps d' st2)))"

definition visit_dict :: "evaluator \<Rightarrow> (node \<times> node) list \<Rightarrow> state \<Rightarrow> val result" where
  "visit_dict ev pairs st = eval_pairs ev pairs [] st"

definition visit_print :: "evaluator \<Rightarrow> node \<Rightarrow> state \<Rightarrow> val result" where
  "visit_print ev expression st =
     bind_result (ev expression st) (\<lambda>v st1.
       (case stringify st1 v of
          None \<Rightarrow> (Inl Unmodelled, st1)
        | Some s \<Rightarrow> (Inr v, st1\<lparr>stdout := stdout st1 @ [s]\<rparr>)))"

subsection \<open>Dispatch\<close>

text \<open>
  \<^verbatim>\<open>node.accept(self)\<close> calls the \<^verbatim>\<open>visit_\<close> method of the node's class. \<open>eval fuel d\<close>
  is \<^verbatim>\<open>evaluate\<close> with \<open>d\<close> nested levels of evaluation left on the native stack: at
  level 0 Python raises \<^verbatim>\<open>RecursionError\<close>. \<open>fuel\<close> bounds the iterations of each loop.
\<close>

definition accept :: "evaluator \<Rightarrow> nat \<Rightarrow> nat \<Rightarrow> node \<Rightarrow> state \<Rightarrow> val result" where
  "accept ev fuel d n st =
     (case n of
        Integer i \<Rightarrow> (Inr (VInt i), st)
      | Float x \<Rightarrow> (Inr (VFloat x), st)
      | String s \<Rightarrow> (Inr (VStr s), st)
      | Boolean b \<Rightarrow> (Inr (VBool b), st)
      | Var name \<Rightarrow> visit_var name st
      | VarAssign name value \<Rightarrow> visit_var_assign ev name value st
      | VarReassign name value \<Rightarrow> visit_var_reassign ev name value st
      | BinOp left operator right \<Rightarrow> visit_bin_op ev d left operator right st
      | UnaryOp operator right \<Rightarrow> visit_unary_op ev operator right st
      | Block statements \<Rightarrow> visit_block ev statements st
      | If_stmt condition then_branch else_branch \<Rightarrow>
          visit_if ev condition then_branch else_branch st
      | While condition body \<Rightarrow> visit_while ev fuel condition body st
      | For var_name start_n end_n step_n body \<Rightarrow>
          visit_for ev fuel var_name start_n end_n step_n body st
      | RepeatUntil body condition \<Rightarrow> visit_repeat_until ev fuel body condition st
      | Match expression cases \<Rightarrow> visit_match ev d expression cases st
      | MatchCase pattern body \<Rightarrow> ev body st
      | FuncDef name ps statements \<Rightarrow> visit_func_def name ps statements st
      | FuncCall callee args \<Rightarrow> visit_func_call ev fuel callee args st
      | Return value \<Rightarrow> visit_return ev value st
      | Lambda ps statements \<Rightarrow> visit_lambda ps statements st
      | Array elements \<Rightarrow> visit_array ev elements st
      | Dict pairs \<Rightarrow> visit_dict ev pairs st
      | ConditionalExpr condition then_expr else_expr \<Rightarrow>
          visit_conditional_expr ev condition then_expr else_expr st
      | Print expression \<Rightarrow> visit_print ev expression st
      | ArrayAssign array_name index value \<Rightarrow> visit_array_assign ev array_name index value st
      | ArrayAccess array_name index \<Rightarrow> visit_array_access ev array_name index st)"

primrec eval :: "nat \<Rightarrow> nat \<Rightarrow> node \<Rightarrow> state \<Rightarrow> val result" where
  "eval fuel 0 n st = (Inl (HostException RecursionError), st)"
| "eval fuel (Suc d) n st = accept (eval fuel d) fuel d n st"

subsection \<open>Running a program\<close>

text \<open>
  \<^verbatim>\<open>Evaluator.__init__\<close> creates the global Environment (address 0) and defines
  \<^verbatim>\<open>len\<close> in it. \<^verbatim>\<open>interpret\<close> executes the statements of the program in the global
  Environment; where the source catches what is raised, prints a message and returns
  \<^verbatim>\<open>None\<close>, \<open>interpret_tree\<close> gives what was raised.
\<close>

definition initial_state :: state where
  "initial_state =
     \<lparr>envs = (\<lambda>a. \<lparr>parent = None, variables = Map.empty\<rparr>)
               (0 := \<lparr>parent = None, variables = [''len'' \<mapsto> VBuiltin ''len'']\<rparr>),
      next_env = 1,
      funcs = (\<lambda>a. \<lparr>func_name = [], func_params = [], func_body = [], closure = 0,
                     is_anonymous = False\<rparr>),
      next_func = 0,
      arrays = (\<lambda>a. []),
      next_array = 0,
      env = 0,
      current_function = None,
      in_tail_position = False,
      stdout = []\<rparr>"

definition interpret_tree :: "nat \<Rightarrow> nat \<Rightarrow> node list \<Rightarrow> val result" where
  "interpret_tree fuel d tree = execute_block (eval fuel d) tree 0 initial_state"

section \<open>Notions used in the statements\<close>

text \<open>
  The kind of a runtime value, and the equality that the operator \<^verbatim>\<open>==\<close> computes on two
  values that are not both Arrays or both Dicts: numbers are equal when their values are,
  other values when they are the same value.
\<close>

datatype kind =
  Nil_kind | Boolean_kind | Integer_kind | Float_kind | String_kind | Array_kind | Dict_kind
  | Function_kind | Builtin_kind

fun kind_of :: "val \<Rightarrow> kind" where
  "kind_of VNil = Nil_kind"
| "kind_of (VBool b) = Boolean_kind"
| "kind_of (VInt i) = Integer_kind"
| "kind_of (VFloat x) = Float_kind"
| "kind_of (VStr s) = String_kind"
| "kind_of (VArray a) = Array_kind"
| "kind_of (VDict d) = Dict_kind"
| "kind_of (VFunc a) = Function_kind"
| "kind_of (VBuiltin n) = Builtin_kind"






text \<open>
  The outcome of an arithmetic operation whose only failure is the host's
  \<^verbatim>\<open>OverflowError\<close>.
\<close>

definition succeeds_or_overflows :: "signal + val \<Rightarrow> bool" where
  "succeeds_or_overflows r = (case r of Inr v \<Rightarrow> True | Inl e \<Rightarrow> e = HostException OverflowError)"

text \<open>
  \<open>unmatched ev d v cases st\<close> is the state after the patterns of \<open>cases\<close> have been
  evaluated in order, each to a value that is not equal to \<open>v\<close>; it is \<open>None\<close> when a
  pattern raises or is equal to \<open>v\<close>.
\<close>

fun unmatched :: "evaluator \<Rightarrow> nat \<Rightarrow> val \<Rightarrow> (node \<times> node) list \<Rightarrow> state \<Rightarrow> state option" where
  "unmatched ev d v [] st = Some st"
| "unmatched ev d v ((pattern, body) # cases) st =
     (case ev pattern st of
        (Inr p, st1) \<Rightarrow>
          (if py_eq d (arrays st1) v p = Inr False then unmatched ev d v cases st1 else None)
      | (Inl e, st1) \<Rightarrow> None)"









text \<open>
  The factorial written with the multiplication in the \<^verbatim>\<open>return\<close> statement: it returns
  1 when \<^verbatim>\<open>n <= 1\<close> and otherwise returns \<^verbatim>\<open>n * factorial(n - 1)\<close>. Then the same function
  with the product bound to a variable \<^verbatim>\<open>r\<close> before \<^verbatim>\<open>r\<close> is returned.
\<close>

definition factorial_body :: "node list" where
  "factorial_body =
     [If_stmt (BinOp (Var ''n'') LTE (Integer 1)) (Block [Return (Some (Integer 1))]) None,
      Return (Some (BinOp (Var ''n'') MULTIPLY
        (FuncCall (Var ''factorial'') [BinOp (Var ''n'') MINUS (Integer 1)])))]"

definition factorial_program :: "int \<Rightarrow> node list" where
  "factorial_program n =
     [FuncDef ''factorial'' [''n''] factorial_body, FuncCall (Var ''factorial'') [Integer n]]"

definition factorial_bound_body :: "node list" where
  "factorial_bound_body =
     [If_stmt (BinOp (Var ''n'') LTE (Integer 1)) (Block [Return (Some (Integer 1))]) None,
      VarAssign ''r'' (BinOp (Var ''n'') MULTIPLY
        (FuncCall (Var ''factorial'') [BinOp (Var ''n'') MINUS (Integer 1)])),
      Return (Some (Var ''r''))]"

definition factorial_bound_program :: "int \<Rightarrow> node list" where
  "factorial_bound_program n =
     [FuncDef ''factorial'' [''n''] factorial_bound_body, FuncCall (Var ''factorial'') [Integer n]]"

text \<open>
  A function whose \<^verbatim>\<open>return\<close> statement is a call with an argument that prints: \<^verbatim>\<open>f\<close>
  returns \<^verbatim>\<open>len(print "ab")\<close>, and the program calls \<^verbatim>\<open>f()\<close>.
\<close>

definition twice_program :: "node list" where
  "twice_program =
     [FuncDef ''f'' [] [Return (Some (FuncCall (Var ''len'') [Print (String ''ab'')]))],
      FuncCall (Var ''f'') []]"

text \<open>
  The statements that only declare, compute and print: no reassignment, no call, no
  \<^verbatim>\<open>for\<close> loop and no store into an array, in the statement or below it. A reassignment,
  a \<^verbatim>\<open>for\<close> loop and a store into an array run \<^verbatim>\<open>Environment.assign\<close>, and a call runs
  the body of a function, which may do so: these are the statements that rebind a name of
  an outer Environment. A function definition or a lambda is a statement that only
  declares, its body not being evaluated by it.
\<close>

fun scope_local :: "node \<Rightarrow> bool" where
  "scope_local (Integer i) = True"
| "scope_local (Float x) = True"
| "scope_local (String s) = True"
| "scope_local (Boolean b) = True"
| "scope_local (Var name) = True"
| "scope_local (VarAssign name value) = scope_local value"
| "scope_local (VarReassign name value) = False"
| "scope_local (BinOp left operator right) = (scope_local left \<and> scope_local right)"
| "scope_local (UnaryOp operator right) = scope_local right"
| "scope_local (Block statements) = list_all scope_local statements"
| "scope_local (If_stmt condition then_branch else_branch) =
     (scope_local condition \<and> scope_local then_branch
      \<and> (case else_branch of None \<Rightarrow> True | Some n \<Rightarrow> scope_local n))"
| "scope_local (While condition body) = (scope_local condition \<and> scope_local body)"
| "scope_local (For var_name start_n end_n step_n body) = False"
| "scope_local (RepeatUntil body condition) = (scope_local body \<and> scope_local condition)"
| "scope_local (Match expression cases) =
     (scope_local expression \<and> list_all (\<lambda>c. scope_local (fst c) \<and> scope_local (snd c)) cases)"
| "scope_local (MatchCase pattern body) = scope_local body"
| "scope_local (FuncDef name ps statements) = True"
| "scope_local (FuncCall callee args) = False"
| "scope_local (Return value) = (case value of None \<Rightarrow> True | Some n \<Rightarrow> scope_local n)"
| "scope_local (Lambda ps statements) = True"
| "scope_local (Array elements) = list_all scope_local elements"
| "scope_local (Dict pairs) = list_all (\<lambda>c. scope_local (fst c) \<and> scope_local (snd c)) pairs"
| "scope_local (ConditionalExpr condition then_expr else_expr) =
     (scope_local condition \<and> scope_local then_expr \<and> scope_local else_expr)"
| "scope_local (Print expression) = scope_local expression"
| "scope_local (ArrayAssign array_name index value) = False"
| "scope_local (ArrayAccess array_name index) = scope_local index"

text \<open>
  \<open>frame st st'\<close>: from \<open>st\<close> to \<open>st'\<close> the current environment is the same one, and every
  environment that existed in \<open>st\<close>, other than the current one, is as it was.
\<close>

definition frame :: "state \<Rightarrow> state \<Rightarrow> bool" where
  "frame st st' \<longleftrightarrow>
     env st' = env st \<and> next_env st \<le> next_env st'
     \<and> (\<forall>a. a < next_env st \<and> a \<noteq> env st \<longrightarrow> envs st' a = envs st a)"


definition framed :: "evaluator \<Rightarrow> node \<Rightarrow> bool" where
  "framed ev n \<longleftrightarrow> (\<forall>st. frame st (snd (ev n st)))"

text \<open>
  A block that declares \<^verbatim>\<open>x\<close> and prints it, and a state where \<^verbatim>\<open>x\<close> is bound to 1 in the
  global environment.
\<close>

definition shadow_block :: "node list" where
  "shadow_block = [VarAssign ''x'' (Integer 2), Print (Var ''x'')]"

definition shadow_state :: state where
  "shadow_state = env_define 0 ''x'' (VInt 1) initial_state"

section \<open>Basic facts\<close>

lemma bind_result_simps [simp]:
  "bind_result (Inr v, st) f = f v st"
  "bind_result (Inl e, st) f = (Inl e, st)"
  by (simp_all add: bind_result_def)

lemma feq_zero: "feq x (Fin 0) = (x = Fin 0)"
  by (cases x) auto

lemma as_val_simps [simp]:
  "as_val (Inr n) = Inr (val_of n)"
  "as_val (Inl e) = Inl e"
  by (simp_all add: as_val_def)

lemma floor_numeral_div: "\<lfloor>numeral a / numeral b :: rat\<rfloor> = numeral a div numeral b"
  using floor_divide_of_int_eq [of "numeral a" "numeral b", where ?'a = rat] by simp

section \<open>Rounding is exact on small integers\<close>

lemma round_half_even_of_int: "round_half_even (of_int m) = m"
  by (simp add: round_half_even_def)

lemma round_double_exact:
  assumes "q \<noteq> 0" and "q / 2 powi (max (floor_log2 \<bar>q\<bar>) (- 1022) - 52) = of_int m"
  shows "round_double q = q"
proof -
  let ?e = "max (floor_log2 \<bar>q\<bar>) (- 1022) - 52"
  have "round_double q = of_int (round_half_even (q / 2 powi ?e)) * 2 powi ?e"
    using assms(1) by (simp add: round_double_def Let_def)
  also have "\<dots> = (q / 2 powi ?e) * 2 powi ?e"
    by (simp only: assms(2) round_half_even_of_int)
  also have "\<dots> = q" by simp
  finally show ?thesis .
qed

lemma floor_log2_of_int: "0 < k \<Longrightarrow> floor_log2 (of_int k) = bitlen k - 1"
  by (simp add: floor_log2_def)

lemma round_double_of_int:
  assumes "\<bar>k\<bar> \<le> 2 ^ 53"
  shows "round_double (of_int k) = of_int k"
proof (cases "k = 0")
  case True
  then show ?thesis by (simp add: round_double_def)
next
  case False
  then have pos: "0 < \<bar>k\<bar>" by simp
  have fl: "floor_log2 \<bar>rat_of_int k\<bar> = bitlen \<bar>k\<bar> - 1"
    using floor_log2_of_int [OF pos] by simp
  have L1: "1 \<le> bitlen \<bar>k\<bar>"
    using pos by (simp add: bitlen_ge_iff_power)
  show ?thesis
  proof (cases "\<bar>k\<bar> = 2 ^ 53")
    case True
    then have "bitlen \<bar>k\<bar> = 54"
      using bitlen_twopow_add_eq [of 0 53] by simp
    then have e: "max (floor_log2 \<bar>rat_of_int k\<bar>) (- 1022) - 52 = 1"
      using fl by simp
    from True have "k = 2 ^ 53 \<or> k = - (2 ^ 53)" by linarith
    then have "rat_of_int k / 2 powi 1 = of_int (k div 2)"
      by auto
    with e show ?thesis
      using round_double_exact [of "of_int k" "k div 2"] False by simp
  next
    case F2: False
    with assms have "\<bar>k\<bar> < 2 ^ 53" by simp
    then have L2: "bitlen \<bar>k\<bar> \<le> 53"
      by (simp add: bitlen_le_iff_power)
    define n where "n = nat (53 - bitlen \<bar>k\<bar>)"
    have e: "max (floor_log2 \<bar>rat_of_int k\<bar>) (- 1022) - 52 = - int n"
      using fl L1 L2 by (simp add: n_def)
    have "rat_of_int k / 2 powi (- int n) = of_int (k * 2 ^ n)"
      by (simp add: power_int_minus field_simps)
    with e show ?thesis
      using round_double_exact [of "of_int k" "k * 2 ^ n"] False by simp
  qed
qed

lemma to_double_of_int:
  assumes "\<bar>k\<bar> \<le> 2 ^ 53"
  shows "to_double (of_int k) = Fin (of_int k)"
proof -
  have "\<bar>rat_of_int k\<bar> \<le> 2 ^ 53" using assms
    by (metis of_int_abs of_int_le_numeral_power_cancel_iff)
  moreover have "(2::rat) ^ 53 < 2 ^ 1024" by simp
  ultimately have "rat_of_int k < 2 ^ 1024" "- (2 ^ 1024) < rat_of_int k"
    by linarith+
  then show ?thesis
    by (simp add: to_double_def round_double_of_int [OF assms] Let_def)
qed

text \<open>Two roundings: one third, and the least power of two beyond the doubles.\<close>

lemma to_double_third: "to_double (1 / 3) = Fin (6004799503160661 / 2 ^ 54)"
proof -
  have b: "bitlen 2 = 2"
    using bitlen_twopow_add_eq [of 0 1] by simp
  have fl: "floor_log2 (1 / 3) = - 2"
    by (simp add: floor_log2_def b)
  have rhe: "round_half_even (18014398509481984 / 3) = 6004799503160661"
    by (simp add: round_half_even_def Let_def floor_numeral_div)
  have rd: "round_double (1 / 3) = 6004799503160661 / 2 ^ 54"
    by (simp add: round_double_def fl Let_def power_int_minus rhe)
  show ?thesis
    by (simp add: to_double_def rd Let_def)
qed

lemma to_double_huge: "to_double (2 ^ 1024) = PInf"
proof -
  have bl: "bitlen (2 ^ 1024) = 1025"
    using bitlen_twopow_add_eq [of 0 1024] by simp
  have fl: "floor_log2 (2 ^ 1024) = 1024"
    using bl by (simp add: floor_log2_def)
  have rhe: "round_half_even (2 ^ 52) = 2 ^ 52"
    using round_half_even_def [of "2 ^ 52"] by (simp add: Let_def)
  have q: "(2::rat) ^ 1024 / 2 powi 972 = 2 ^ 52"
    by simp
  have "round_double (2 ^ 1024) = of_int (round_half_even (2 ^ 1024 / 2 powi 972)) * 2 powi 972"
    using fl by (simp add: round_double_def Let_def)
  also have "\<dots> = 2 ^ 1024"
    unfolding q rhe by simp
  finally show ?thesis
    by (simp add: to_double_def Let_def)
qed

section \<open>Truthiness\<close>

text \<open>
  Claim C7. The truthiness rule maps every runtime value to a Boolean: Nil, Boolean false,
  Integer 0, Float 0.0 and the empty String are false; every other value is true, among
  them the empty Array, the empty Dict, every number that is not zero, every String that is
  not empty, and every Function and built-in function.
\<close>

theorem C7_truthiness:
  "is_truthy v \<longleftrightarrow>
     \<not> (v = VNil \<or> v = VBool False \<or> v = VInt 0 \<or> v = VFloat (Fin 0) \<or> v = VStr [])"
  by (cases v) (auto simp: is_truthy_def num_eq_def feq_zero)

theorem C7_truthiness_witness:
  "\<not> is_truthy VNil \<and> \<not> is_truthy (VBool False) \<and> \<not> is_truthy (VInt 0)
   \<and> \<not> is_truthy (VFloat (Fin 0)) \<and> \<not> is_truthy (VStr [])
   \<and> is_truthy (VArray 0) \<and> is_truthy (VDict []) \<and> is_truthy (VInt (- 3))
   \<and> is_truthy (VFloat (Fin (1 / 2))) \<and> is_truthy (VStr ''0'') \<and> is_truthy (VBool True)
   \<and> is_truthy (VFunc 0) \<and> is_truthy (VBuiltin ''len'')"
  using C7_truthiness [of VNil] C7_truthiness [of "VBool False"] C7_truthiness [of "VInt 0"]
    C7_truthiness [of "VFloat (Fin 0)"] C7_truthiness [of "VStr []"]
    C7_truthiness [of "VArray 0"] C7_truthiness [of "VDict []"] C7_truthiness [of "VInt (- 3)"]
    C7_truthiness [of "VFloat (Fin (1 / 2))"] C7_truthiness [of "VStr ''0''"]
    C7_truthiness [of "VBool True"] C7_truthiness [of "VFunc 0"]
    C7_truthiness [of "VBuiltin ''len''"]
  by simp

section \<open>Evaluation of the node kinds\<close>

declare eval.simps(2) [simp del]

lemma eval_node:
  "eval fuel (Suc d) (Integer i) st = (Inr (VInt i), st)"
  "eval fuel (Suc d) (Float x) st = (Inr (VFloat x), st)"
  "eval fuel (Suc d) (String str) st = (Inr (VStr str), st)"
  "eval fuel (Suc d) (Boolean bv) st = (Inr (VBool bv), st)"
  "eval fuel (Suc d) (Var name) st = visit_var name st"
  "eval fuel (Suc d) (VarAssign name v1) st = visit_var_assign (eval fuel d) name v1 st"
  "eval fuel (Suc d) (VarReassign name v1) st = visit_var_reassign (eval fuel d) name v1 st"
  "eval fuel (Suc d) (BinOp l operator r) st = visit_bin_op (eval fuel d) d l operator r st"
  "eval fuel (Suc d) (UnaryOp operator r) st = visit_unary_op (eval fuel d) operator r st"
  "eval fuel (Suc d) (Block statements) st = visit_block (eval fuel d) statements st"
  "eval fuel (Suc d) (If_stmt c t eo) st = visit_if (eval fuel d) c t eo st"
  "eval fuel (Suc d) (While c b) st = visit_while (eval fuel d) fuel c b st"
  "eval fuel (Suc d) (For vn s1 e1 ko bs) st = visit_for (eval fuel d) fuel vn s1 e1 ko bs st"
  "eval fuel (Suc d) (RepeatUntil b c) st = visit_repeat_until (eval fuel d) fuel b c st"
  "eval fuel (Suc d) (Match e1 cs) st = visit_match (eval fuel d) d e1 cs st"
  "eval fuel (Suc d) (MatchCase p b) st = eval fuel d b st"
  "eval fuel (Suc d) (FuncDef name ps statements) st = visit_func_def name ps statements st"
  "eval fuel (Suc d) (FuncCall callee args) st = visit_func_call (eval fuel d) fuel callee args st"
  "eval fuel (Suc d) (Return vo) st = visit_return (eval fuel d) vo st"
  "eval fuel (Suc d) (Lambda ps statements) st = visit_lambda ps statements st"
  "eval fuel (Suc d) (Array elements) st = visit_array (eval fuel d) elements st"
  "eval fuel (Suc d) (Dict pairs) st = visit_dict (eval fuel d) pairs st"
  "eval fuel (Suc d) (ConditionalExpr c t e1) st = visit_conditional_expr (eval fuel d) c t e1 st"
  "eval fuel (Suc d) (Print e1) st = visit_print (eval fuel d) e1 st"
  "eval fuel (Suc d) (ArrayAssign an ix v1) st = visit_array_assign (eval fuel d) an ix v1 st"
  "eval fuel (Suc d) (ArrayAccess an ix) st = visit_array_access (eval fuel d) an ix st"
  by (simp_all add: eval.simps(2) accept_def)

lemma visit_bin_op_values:
  "ev l st = (Inr vl, st1) \<Longrightarrow> ev r st1 = (Inr vr, st2) \<Longrightarrow>
   visit_bin_op ev d l operator r st = (bin_op d st2 operator vl vr, st2)"
  by (simp add: visit_bin_op_def)

lemma eval_BinOp_values:
  assumes "eval fuel d l st = (Inr vl, st1)" and "eval fuel d r st1 = (Inr vr, st2)"
  shows "eval fuel (Suc d) (BinOp l operator r) st = (bin_op d st2 operator vl vr, st2)"
  using assms by (simp add: eval_node visit_bin_op_def)

section \<open>Operands of arithmetic and comparison\<close>

text \<open>
  Claim C3 says that an arithmetic operator or a comparison fails with a type error when
  an operand is a Boolean. The check of the evaluator, \<^verbatim>\<open>isinstance(v, (int, float))\<close>,
  accepts a Boolean: the three expressions that the claim names, \<^verbatim>\<open>true < 5\<close>,
  \<^verbatim>\<open>true + 1\<close> and \<^verbatim>\<open>false * 2\<close>, are evaluated to \<^verbatim>\<open>true\<close>, 2 and 0.
\<close>

theorem C3_boolean_operands_accepted:
  "eval fuel (Suc (Suc d)) (BinOp (Boolean True) LT (Integer 5)) st = (Inr (VBool True), st)
   \<and> eval fuel (Suc (Suc d)) (BinOp (Boolean True) PLUS (Integer 1)) st = (Inr (VInt 2), st)
   \<and> eval fuel (Suc (Suc d)) (BinOp (Boolean False) MULTIPLY (Integer 2)) st = (Inr (VInt 0), st)"
  by (simp add: eval_node visit_bin_op_def bin_op_def plus_def with_numbers_def
      check_number_operands_def num_less_def as_val_def)

section \<open>Equality\<close>

















section \<open>Division\<close>

lemma to_double_cases:
  "to_double q = (if 2 ^ 1024 \<le> round_double q then PInf
                  else if round_double q \<le> - (2 ^ 1024) then NInf else Fin (round_double q))"
  by (simp add: to_double_def Let_def)

lemma int_truediv_eq:
  "as_val (int_truediv a b) =
     (if \<bar>round_double (of_int a / of_int b)\<bar> < 2 ^ 1024
      then Inr (VFloat (Fin (round_double (of_int a / of_int b))))
      else Inl (HostException OverflowError))"
  by (auto simp: int_truediv_def to_double_cases as_val_def abs_if)

lemma num_eq_int_zero: "num_eq (PInt b) (PInt 0) = (b = 0)"
  by (simp add: num_eq_def)

lemma bin_op_divide_ints:
  "b \<noteq> 0 \<Longrightarrow> bin_op d st DIVIDE (VInt a) (VInt b) =
     (if \<bar>round_double (of_int a / of_int b)\<bar> < 2 ^ 1024
      then Inr (VFloat (Fin (round_double (of_int a / of_int b))))
      else Inl (HostException OverflowError))"
  by (simp add: bin_op_def with_numbers_def check_number_operands_def num_eq_int_zero
      int_truediv_eq)

lemma exact_quotient:
  assumes "b \<noteq> 0" "b dvd a"
  shows "rat_of_int a / rat_of_int b = rat_of_int (a div b)"
  using assms by auto

lemma stringify_integral: "stringify st (VFloat (Fin (of_int k))) = Some (show_int k)"
  by simp

text \<open>
  Claim C10, as amended. The quotient \<^verbatim>\<open>/\<close> of two Integers \<open>a\<close> and \<open>b \<noteq> 0\<close> is never an
  Integer: it is the Float \<open>round_double (a / b)\<close>, the exact quotient rounded to a double,
  or the host's \<^verbatim>\<open>OverflowError\<close> when that is beyond the range of a double. When \<open>b\<close>
  divides \<open>a\<close> and the quotient is at most \<open>2 ^ 53\<close> in absolute value, the Float is the
  exact quotient, and its text is the text of the integer (\<^verbatim>\<open>4 / 2\<close> is \<^verbatim>\<open>2.0\<close>, printed
  as \<^verbatim>\<open>2\<close>).
\<close>

theorem C10_true_division:
  assumes "eval fuel d l st = (Inr (VInt a), st1)" and "eval fuel d r st1 = (Inr (VInt b), st2)"
    and "b \<noteq> 0"
  shows "eval fuel (Suc d) (BinOp l DIVIDE r) st =
           ((if \<bar>round_double (of_int a / of_int b)\<bar> < 2 ^ 1024
             then Inr (VFloat (Fin (round_double (of_int a / of_int b))))
             else Inl (HostException OverflowError)), st2)
    \<and> (\<forall>i. fst (eval fuel (Suc d) (BinOp l DIVIDE r) st) \<noteq> Inr (VInt i))
    \<and> (b dvd a \<and> \<bar>a div b\<bar> \<le> 2 ^ 53 \<longrightarrow>
          eval fuel (Suc d) (BinOp l DIVIDE r) st = (Inr (VFloat (Fin (of_int (a div b)))), st2)
          \<and> stringify st2 (VFloat (Fin (of_int (a div b)))) = Some (show_int (a div b)))"
proof -
  have e: "eval fuel (Suc d) (BinOp l DIVIDE r) st =
           ((if \<bar>round_double (of_int a / of_int b)\<bar> < 2 ^ 1024
             then Inr (VFloat (Fin (round_double (of_int a / of_int b))))
             else Inl (HostException OverflowError)), st2)"
    using eval_BinOp_values [OF assms(1,2)] bin_op_divide_ints [OF assms(3)] by simp
  have x: "eval fuel (Suc d) (BinOp l DIVIDE r) st = (Inr (VFloat (Fin (of_int (a div b)))), st2)"
    if "b dvd a" "\<bar>a div b\<bar> \<le> 2 ^ 53"
  proof -
    have "rat_of_int a / rat_of_int b = rat_of_int (a div b)"
      using exact_quotient [OF assms(3) that(1)] .
    moreover have "round_double (rat_of_int (a div b)) = rat_of_int (a div b)"
      using round_double_of_int [OF that(2)] .
    moreover have "\<bar>rat_of_int (a div b)\<bar> < 2 ^ 1024"
    proof -
      have "\<bar>rat_of_int (a div b)\<bar> \<le> 2 ^ 53" using that(2)
        by (metis of_int_abs of_int_le_numeral_power_cancel_iff)
      moreover have "(2::rat) ^ 53 < 2 ^ 1024" by simp
      ultimately show ?thesis by linarith
    qed
    ultimately show ?thesis using e by simp
  qed
  from e have n: "\<forall>i. fst (eval fuel (Suc d) (BinOp l DIVIDE r) st) \<noteq> Inr (VInt i)"
    by simp
  show ?thesis using e x n stringify_integral by blast
qed

text \<open>The quotient \<^verbatim>\<open>4 / 2\<close>.\<close>

theorem C10_true_division_witness:
  "eval 0 (Suc (Suc 0)) (BinOp (Integer 4) DIVIDE (Integer 2)) initial_state
     = (Inr (VFloat (Fin 2)), initial_state)
   \<and> stringify initial_state (VFloat (Fin 2)) = Some ''2''"
proof -
  have h1: "eval 0 (Suc 0) (Integer 4) initial_state = (Inr (VInt 4), initial_state)"
    by (simp add: eval_node)
  have h2: "eval 0 (Suc 0) (Integer 2) initial_state = (Inr (VInt 2), initial_state)"
    by (simp add: eval_node)
  have h3: "(2::int) \<noteq> 0" by simp
  have d: "(2::int) dvd 4 \<and> \<bar>4 div 2\<bar> \<le> (2::int) ^ 53" by simp
  have r: "eval 0 (Suc (Suc 0)) (BinOp (Integer 4) DIVIDE (Integer 2)) initial_state
             = (Inr (VFloat (Fin (rat_of_int (4 div 2)))), initial_state)"
    and s: "stringify initial_state (VFloat (Fin (rat_of_int (4 div 2)))) = Some (show_int (4 div 2))"
    using C10_true_division [OF h1 h2 h3] d by blast+
  have v: "rat_of_int (4 div 2) = 2" by simp
  have t: "show_int (4 div 2) = ''2''" by code_simp
  show ?thesis using r s unfolding v t by blast
qed

text \<open>
  Claim C10 as stated fails: the value of \<^verbatim>\<open>1 / 3\<close> is the double nearest to one third,
  which is not one third.
\<close>

theorem C10_counterexample:
  "eval 0 2 (BinOp (Integer 1) DIVIDE (Integer 3)) initial_state
     = (Inr (VFloat (Fin (6004799503160661 / 2 ^ 54))), initial_state)
   \<and> (6004799503160661 / 2 ^ 54 :: rat) \<noteq> 1 / 3"
proof -
  have "as_val (int_truediv 1 3) = Inr (VFloat (Fin (6004799503160661 / 2 ^ 54)))"
    using to_double_third by (simp add: int_truediv_def)
  then show ?thesis
    by (simp add: eval_nat_numeral eval_node visit_bin_op_def bin_op_def with_numbers_def
        check_number_operands_def num_eq_int_zero)
qed

lemma float_of_int_cases:
  "float_of_int i = Inl (HostException OverflowError) \<or> (\<exists>r. float_of_int i = Inr (Fin r))"
  by (simp add: float_of_int_def split: pyfloat.splits)

lemma num_eq_zero_iff:
  "num_eq (PInt j) (PInt 0) = (j = 0)"
  "num_eq (PFloat y) (PInt 0) = (y = Fin 0)"
  by (simp_all add: num_eq_def feq_zero)

lemma bin_op_divide_numbers:
  "bin_op d st DIVIDE (val_of a) (val_of b) =
     (if num_eq b (PInt 0) then Inl (FluxRuntimeError DivisionByZero) else as_val (num_truediv a b))"
  "bin_op d st REM (val_of a) (val_of b) =
     (if num_eq b (PInt 0) then Inl (FluxRuntimeError RemainderByZero) else as_val (num_mod a b))"
  by (cases a; cases b; simp add: bin_op_def with_numbers_def check_number_operands_def)+

lemma val_of_kinds:
  "kind_of v = Integer_kind \<or> kind_of v = Float_kind \<Longrightarrow> \<exists>n. v = val_of n"
  by (cases v) (auto intro: exI [of _ "PInt i" for i] exI [of _ "PFloat x" for x])

lemma float_of_int_Inl: "float_of_int i = Inl e \<Longrightarrow> e = HostException OverflowError"
  by (simp add: float_of_int_def split: pyfloat.splits)

lemma float_op_outcome: "succeeds_or_overflows (as_val (float_op f a b))"
  by (cases a; cases b)
    (auto simp: float_op_def as_val_def succeeds_or_overflows_def split: sum.splits
      dest: float_of_int_Inl)

lemma truediv_mod_outcome:
  "succeeds_or_overflows (as_val (num_truediv a b))"
  "succeeds_or_overflows (as_val (num_mod a b))"
proof -
  show "succeeds_or_overflows (as_val (num_truediv a b))"
    using float_op_outcome [of fdiv a b]
    by (cases a; cases b) (auto simp: int_truediv_eq succeeds_or_overflows_def)
  show "succeeds_or_overflows (as_val (num_mod a b))"
    using float_op_outcome [of frem a b]
    by (cases a; cases b) (auto simp: as_val_def succeeds_or_overflows_def)
qed

lemma C4_values:
  "(num_eq b (PInt 0) \<longrightarrow>
       bin_op d st DIVIDE (val_of a) (val_of b) = Inl (FluxRuntimeError DivisionByZero)
     \<and> bin_op d st REM (val_of a) (val_of b) = Inl (FluxRuntimeError RemainderByZero))
   \<and> (\<not> num_eq b (PInt 0) \<longrightarrow>
       bin_op d st DIVIDE (val_of a) (val_of b) = as_val (num_truediv a b)
     \<and> bin_op d st REM (val_of a) (val_of b) = as_val (num_mod a b)
     \<and> succeeds_or_overflows (bin_op d st DIVIDE (val_of a) (val_of b))
     \<and> succeeds_or_overflows (bin_op d st REM (val_of a) (val_of b)))"
  by (simp add: bin_op_divide_numbers truediv_mod_outcome)

lemma num_ops_unfold:
  "as_val (float_op f (PFloat x) (PFloat y)) = Inr (VFloat (f x y))"
  "as_val (float_op f (PInt i) (PFloat y)) =
     (case float_of_int i of Inl e \<Rightarrow> Inl e | Inr x \<Rightarrow> Inr (VFloat (f x y)))"
  "as_val (float_op f (PFloat x) (PInt j)) =
     (case float_of_int j of Inl e \<Rightarrow> Inl e | Inr y \<Rightarrow> Inr (VFloat (f x y)))"
  by (simp_all add: float_op_def split: sum.splits)

lemma num_truediv_ints:
  "as_val (num_truediv (PInt i) (PInt j)) =
     (if \<bar>round_double (of_int i / of_int j)\<bar> < 2 ^ 1024
      then Inr (VFloat (Fin (round_double (of_int i / of_int j))))
      else Inl (HostException OverflowError))"
  by (simp add: int_truediv_eq)

text \<open>
  Claim C4, as amended. For Integer or Float operands \<open>a\<close> and \<open>b\<close>: when \<open>b\<close> is 0 by value
  (Integer 0 or Float 0.0), \<^verbatim>\<open>a / b\<close> fails with the division-by-zero error and \<^verbatim>\<open>a % b\<close>
  with the remainder-by-zero error. When \<open>b\<close> is not 0, each of the two operations either
  succeeds or fails with the host's \<^verbatim>\<open>OverflowError\<close>: on two Integers the remainder
  always succeeds and is \<open>a mod b\<close> (with the sign of \<open>b\<close>), and the quotient is the exact
  quotient rounded to a double, or \<^verbatim>\<open>OverflowError\<close> beyond the doubles; on two Floats
  both succeed with the results of the host's float division and remainder; on an Integer
  and a Float the Integer is converted to a Float first, which fails with
  \<^verbatim>\<open>OverflowError\<close> when it is too large.
\<close>

theorem C4_division_and_remainder:
  assumes "eval fuel d l st = (Inr vl, st1)" and "eval fuel d r st1 = (Inr vr, st2)"
    and "kind_of vl = Integer_kind \<or> kind_of vl = Float_kind"
    and "kind_of vr = Integer_kind \<or> kind_of vr = Float_kind"
  shows
    "(vr = VInt 0 \<or> vr = VFloat (Fin 0) \<longrightarrow>
        eval fuel (Suc d) (BinOp l DIVIDE r) st = (Inl (FluxRuntimeError DivisionByZero), st2)
      \<and> eval fuel (Suc d) (BinOp l REM r) st = (Inl (FluxRuntimeError RemainderByZero), st2))
     \<and> (vr \<noteq> VInt 0 \<and> vr \<noteq> VFloat (Fin 0) \<longrightarrow>
        succeeds_or_overflows (fst (eval fuel (Suc d) (BinOp l DIVIDE r) st))
      \<and> succeeds_or_overflows (fst (eval fuel (Suc d) (BinOp l REM r) st))
      \<and> (\<forall>i j. vl = VInt i \<and> vr = VInt j \<longrightarrow>
            eval fuel (Suc d) (BinOp l REM r) st = (Inr (VInt (i mod j)), st2)
          \<and> eval fuel (Suc d) (BinOp l DIVIDE r) st =
              ((if \<bar>round_double (of_int i / of_int j)\<bar> < 2 ^ 1024
                then Inr (VFloat (Fin (round_double (of_int i / of_int j))))
                else Inl (HostException OverflowError)), st2))
      \<and> (\<forall>x y. vl = VFloat x \<and> vr = VFloat y \<longrightarrow>
            eval fuel (Suc d) (BinOp l DIVIDE r) st = (Inr (VFloat (fdiv x y)), st2)
          \<and> eval fuel (Suc d) (BinOp l REM r) st = (Inr (VFloat (frem x y)), st2))
      \<and> (\<forall>i y. vl = VInt i \<and> vr = VFloat y \<longrightarrow>
            eval fuel (Suc d) (BinOp l DIVIDE r) st =
              ((case float_of_int i of Inl e \<Rightarrow> Inl e | Inr x \<Rightarrow> Inr (VFloat (fdiv x y))), st2)
          \<and> eval fuel (Suc d) (BinOp l REM r) st =
              ((case float_of_int i of Inl e \<Rightarrow> Inl e | Inr x \<Rightarrow> Inr (VFloat (frem x y))), st2))
      \<and> (\<forall>x j. vl = VFloat x \<and> vr = VInt j \<longrightarrow>
            eval fuel (Suc d) (BinOp l DIVIDE r) st =
              ((case float_of_int j of Inl e \<Rightarrow> Inl e | Inr y \<Rightarrow> Inr (VFloat (fdiv x y))), st2)
          \<and> eval fuel (Suc d) (BinOp l REM r) st =
              ((case float_of_int j of Inl e \<Rightarrow> Inl e | Inr y \<Rightarrow> Inr (VFloat (frem x y))), st2)))"
proof -
  obtain a where a: "vl = val_of a" using val_of_kinds [OF assms(3)] by blast
  obtain b where b: "vr = val_of b" using val_of_kinds [OF assms(4)] by blast
  have z: "(vr = VInt 0 \<or> vr = VFloat (Fin 0)) = num_eq b (PInt 0)"
    unfolding b by (cases b) (simp_all add: num_eq_zero_iff)
  have e: "eval fuel (Suc d) (BinOp l operator r) st = (bin_op d st2 operator vl vr, st2)"
    for operator
    using eval_BinOp_values [OF assms(1,2)] by simp
  have dv: "bin_op d st2 DIVIDE vl vr =
      (if num_eq b (PInt 0) then Inl (FluxRuntimeError DivisionByZero) else as_val (num_truediv a b))"
    and rm: "bin_op d st2 REM vl vr =
      (if num_eq b (PInt 0) then Inl (FluxRuntimeError RemainderByZero) else as_val (num_mod a b))"
    unfolding a b by (rule bin_op_divide_numbers)+
  have zero: "eval fuel (Suc d) (BinOp l DIVIDE r) st = (Inl (FluxRuntimeError DivisionByZero), st2)
      \<and> eval fuel (Suc d) (BinOp l REM r) st = (Inl (FluxRuntimeError RemainderByZero), st2)"
    if "num_eq b (PInt 0)"
    using that by (simp add: e dv rm)
  have ok: "succeeds_or_overflows (fst (eval fuel (Suc d) (BinOp l DIVIDE r) st))
      \<and> succeeds_or_overflows (fst (eval fuel (Suc d) (BinOp l REM r) st))"
    if "\<not> num_eq b (PInt 0)"
    using that by (simp add: e dv rm truediv_mod_outcome)
  have ii: "eval fuel (Suc d) (BinOp l REM r) st = (Inr (VInt (i mod j)), st2)
          \<and> eval fuel (Suc d) (BinOp l DIVIDE r) st =
              ((if \<bar>round_double (of_int i / of_int j)\<bar> < 2 ^ 1024
                then Inr (VFloat (Fin (round_double (of_int i / of_int j))))
                else Inl (HostException OverflowError)), st2)"
    if "\<not> num_eq b (PInt 0)" "vl = VInt i" "vr = VInt j" for i j
  proof -
    have "a = PInt i" "b = PInt j" using that a b by (cases a; cases b; simp)+
    then show ?thesis using that(1)
      by (simp add: e dv rm int_truediv_eq)
  qed
  have ff: "eval fuel (Suc d) (BinOp l DIVIDE r) st = (Inr (VFloat (fdiv x y)), st2)
          \<and> eval fuel (Suc d) (BinOp l REM r) st = (Inr (VFloat (frem x y)), st2)"
    if "\<not> num_eq b (PInt 0)" "vl = VFloat x" "vr = VFloat y" for x y
  proof -
    have "a = PFloat x" "b = PFloat y" using that a b by (cases a; cases b; simp)+
    then show ?thesis using that(1) by (simp add: e dv rm num_ops_unfold)
  qed
  have if': "eval fuel (Suc d) (BinOp l DIVIDE r) st =
              ((case float_of_int i of Inl e \<Rightarrow> Inl e | Inr x \<Rightarrow> Inr (VFloat (fdiv x y))), st2)
          \<and> eval fuel (Suc d) (BinOp l REM r) st =
              ((case float_of_int i of Inl e \<Rightarrow> Inl e | Inr x \<Rightarrow> Inr (VFloat (frem x y))), st2)"
    if "\<not> num_eq b (PInt 0)" "vl = VInt i" "vr = VFloat y" for i y
  proof -
    have "a = PInt i" "b = PFloat y" using that a b by (cases a; cases b; simp)+
    then show ?thesis using that(1) by (simp add: e dv rm num_ops_unfold)
  qed
  have fi: "eval fuel (Suc d) (BinOp l DIVIDE r) st =
              ((case float_of_int j of Inl e \<Rightarrow> Inl e | Inr y \<Rightarrow> Inr (VFloat (fdiv x y))), st2)
          \<and> eval fuel (Suc d) (BinOp l REM r) st =
              ((case float_of_int j of Inl e \<Rightarrow> Inl e | Inr y \<Rightarrow> Inr (VFloat (frem x y))), st2)"
    if "\<not> num_eq b (PInt 0)" "vl = VFloat x" "vr = VInt j" for x j
  proof -
    have "a = PFloat x" "b = PInt j" using that a b by (cases a; cases b; simp)+
    then show ?thesis using that(1) by (simp add: e dv rm num_ops_unfold)
  qed
  have nz: "\<not> num_eq b (PInt 0)" if "vr \<noteq> VInt 0 \<and> vr \<noteq> VFloat (Fin 0)"
    using that z by blast
  show ?thesis
  proof (intro conjI impI allI)
    assume "vr = VInt 0 \<or> vr = VFloat (Fin 0)"
    then have "num_eq b (PInt 0)" using z by blast
    from zero [OF this]
    show "eval fuel (Suc d) (BinOp l DIVIDE r) st = (Inl (FluxRuntimeError DivisionByZero), st2)"
      and "eval fuel (Suc d) (BinOp l REM r) st = (Inl (FluxRuntimeError RemainderByZero), st2)"
      by blast+
  qed (use nz ok ii ff if' fi in blast)+
qed

text \<open>A Float zero as divisor, and the remainder of 7 by -2.\<close>

theorem C4_division_and_remainder_witness:
  "eval 0 (Suc (Suc 0)) (BinOp (Integer 7) DIVIDE (Float (Fin 0))) initial_state
     = (Inl (FluxRuntimeError DivisionByZero), initial_state)
   \<and> eval 0 (Suc (Suc 0)) (BinOp (Integer 7) REM (Float (Fin 0))) initial_state
     = (Inl (FluxRuntimeError RemainderByZero), initial_state)
   \<and> eval 0 (Suc (Suc 0)) (BinOp (Integer 7) REM (Integer (- 2))) initial_state
     = (Inr (VInt (- 1)), initial_state)"
proof -
  have l: "eval 0 (Suc 0) (Integer 7) initial_state = (Inr (VInt 7), initial_state)"
    by (simp add: eval_node)
  have r0: "eval 0 (Suc 0) (Float (Fin 0)) initial_state = (Inr (VFloat (Fin 0)), initial_state)"
    by (simp add: eval_node)
  have r2: "eval 0 (Suc 0) (Integer (- 2)) initial_state = (Inr (VInt (- 2)), initial_state)"
    by (simp add: eval_node)
  have k7: "kind_of (VInt 7) = Integer_kind \<or> kind_of (VInt 7) = Float_kind" by simp
  have k0: "kind_of (VFloat (Fin 0)) = Integer_kind \<or> kind_of (VFloat (Fin 0)) = Float_kind"
    by simp
  have k2: "kind_of (VInt (- 2)) = Integer_kind \<or> kind_of (VInt (- 2)) = Float_kind" by simp
  have m: "(7::int) mod (- 2) = - 1" by simp
  show ?thesis
    using C4_division_and_remainder [OF l r0 k7 k0] C4_division_and_remainder [OF l r2 k7 k2]
    unfolding m [symmetric] by simp
qed

text \<open>
  Claim C4 as stated fails: the divisor 1 is not 0, and the quotient of \<open>2 ^ 1024\<close> by 1
  does not succeed.
\<close>

theorem C4_counterexample:
  "eval 0 (Suc (Suc 0)) (BinOp (Integer (2 ^ 1024)) DIVIDE (Integer 1)) initial_state
     = (Inl (HostException OverflowError), initial_state)"
proof -
  have "as_val (int_truediv (2 ^ 1024) 1) = Inl (HostException OverflowError)"
    using to_double_huge by (simp add: int_truediv_def)
  then show ?thesis
    by (simp add: eval_node visit_bin_op_def bin_op_def with_numbers_def
        check_number_operands_def num_eq_zero_iff)
qed

section \<open>The logical operators\<close>

text \<open>
  Claim C6. \<^verbatim>\<open>and\<close> and \<^verbatim>\<open>or\<close> do not short-circuit. Whatever the value of the left
  operand, the right operand is evaluated in the state that the left operand leaves, with
  its effects; what it raises is raised, and otherwise the result is the Boolean that
  combines the truthiness of the two values by conjunction or disjunction.
\<close>

theorem C6_logical_operators_eager:
  assumes "eval fuel d l st = (Inr vl, st1)"
  shows "eval fuel (Suc d) (BinOp l AND r) st =
           (case eval fuel d r st1 of
              (Inl e, st2) \<Rightarrow> (Inl e, st2)
            | (Inr vr, st2) \<Rightarrow> (Inr (VBool (is_truthy vl \<and> is_truthy vr)), st2))
    \<and> eval fuel (Suc d) (BinOp l OR r) st =
           (case eval fuel d r st1 of
              (Inl e, st2) \<Rightarrow> (Inl e, st2)
            | (Inr vr, st2) \<Rightarrow> (Inr (VBool (is_truthy vl \<or> is_truthy vr)), st2))"
  using assms
  by (simp add: eval_node visit_bin_op_def bin_op_def bind_result_def split: prod.splits sum.splits)

text \<open>The right operand prints although the left operand decides the result.\<close>

theorem C6_logical_operators_eager_witness:
  "eval 0 (Suc (Suc (Suc 0))) (BinOp (Boolean False) AND (Print (Integer 7))) initial_state
     = (Inr (VBool False), initial_state\<lparr>stdout := [''7'']\<rparr>)
   \<and> eval 0 (Suc (Suc (Suc 0))) (BinOp (Boolean False) OR (Print (Integer 7))) initial_state
     = (Inr (VBool True), initial_state\<lparr>stdout := [''7'']\<rparr>)"
proof -
  have l: "eval 0 (Suc (Suc 0)) (Boolean False) initial_state = (Inr (VBool False), initial_state)"
    by (simp add: eval_node)
  have s: "show_int 7 = ''7''" by code_simp
  have r: "eval 0 (Suc (Suc 0)) (Print (Integer 7)) initial_state
             = (Inr (VInt 7), initial_state\<lparr>stdout := [''7'']\<rparr>)"
    by (simp add: eval_node visit_print_def s initial_state_def)
  have t: "is_truthy (VInt 7)" "\<not> is_truthy (VBool False)"
    by (simp_all add: is_truthy_def num_eq_def)
  show ?thesis
    using C6_logical_operators_eager [OF l, of "Print (Integer 7)"] by (simp add: r t)
qed

section \<open>Match\<close>

lemma match_cases_unmatched:
  "unmatched ev d v pre st0 = Some st1 \<Longrightarrow>
   match_cases ev d v (pre @ rest) st0 = match_cases ev d v rest st1"
proof (induction pre arbitrary: st0)
  case Nil
  then show ?case by simp
next
  case (Cons c pre)
  obtain p b where c: "c = (p, b)" by (cases c)
  show ?case
  proof (cases "ev p st0")
    case (Pair res st')
    with Cons.prems c obtain q where q: "res = Inr q" "py_eq d (arrays st') v q = Inr False"
      and u: "unmatched ev d v pre st' = Some st1"
      by (cases res) (auto split: if_splits)
    show ?thesis
      using Cons.IH [OF u] Pair q c by simp
  qed
qed

text \<open>
  Claim C9. A match evaluates its scrutinee once and then the patterns of its cases in
  order, testing each value for equality with the scrutinee. When no pattern is equal, the
  match fails with the error of no matching case. At the first pattern that is equal, the
  value of the match is the value of that case's body, evaluated in the state left by that
  pattern: no body of an earlier case and no pattern or body of a later case is evaluated.
\<close>

theorem C9_match:
  assumes "eval fuel d e st = (Inr v, st0)"
  shows "(unmatched (eval fuel d) d v cases st0 = Some st1 \<longrightarrow>
            eval fuel (Suc d) (Match e cases) st = (Inl (FluxRuntimeError NoMatchingCase), st1))
    \<and> (unmatched (eval fuel d) d v pre st0 = Some st1
         \<and> eval fuel d pattern st1 = (Inr p, st2) \<and> py_eq d (arrays st2) v p = Inr True \<longrightarrow>
            eval fuel (Suc d) (Match e (pre @ (pattern, body) # post)) st = eval fuel d body st2)"
proof (intro conjI impI)
  assume "unmatched (eval fuel d) d v cases st0 = Some st1"
  from match_cases_unmatched [OF this, of "[]"]
  show "eval fuel (Suc d) (Match e cases) st = (Inl (FluxRuntimeError NoMatchingCase), st1)"
    using assms by (simp add: eval_node visit_match_def raise_def)
next
  assume a: "unmatched (eval fuel d) d v pre st0 = Some st1
     \<and> eval fuel d pattern st1 = (Inr p, st2) \<and> py_eq d (arrays st2) v p = Inr True"
  then have "match_cases (eval fuel d) d v (pre @ (pattern, body) # post) st0
      = match_cases (eval fuel d) d v ((pattern, body) # post) st1"
    using match_cases_unmatched by blast
  with a show "eval fuel (Suc d) (Match e (pre @ (pattern, body) # post)) st = eval fuel d body st2"
    using assms by (simp add: eval_node visit_match_def)
qed

text \<open>The scrutinee 2 against the cases 1 and 2 gives the second body; the scrutinee 3 fails.\<close>

theorem C9_match_witness:
  "eval 0 (Suc (Suc 0)) (Match (Integer 2) [(Integer 1, String ''a''), (Integer 2, String ''b'')])
     initial_state = (Inr (VStr ''b''), initial_state)
   \<and> eval 0 (Suc (Suc 0)) (Match (Integer 3) [(Integer 1, String ''a''), (Integer 2, String ''b'')])
     initial_state = (Inl (FluxRuntimeError NoMatchingCase), initial_state)"
proof -
  have s2: "eval 0 (Suc 0) (Integer 2) initial_state = (Inr (VInt 2), initial_state)"
    and s3: "eval 0 (Suc 0) (Integer 3) initial_state = (Inr (VInt 3), initial_state)"
    and b: "eval 0 (Suc 0) (String ''b'') initial_state = (Inr (VStr ''b''), initial_state)"
    by (simp_all add: eval_node)
  have u2: "unmatched (eval 0 (Suc 0)) (Suc 0) (VInt 2) [(Integer 1, String ''a'')] initial_state
      = Some initial_state"
    by (simp add: eval_node num_eq_def)
  have u3: "unmatched (eval 0 (Suc 0)) (Suc 0) (VInt 3)
      [(Integer 1, String ''a''), (Integer 2, String ''b'')] initial_state = Some initial_state"
    by (simp add: eval_node num_eq_def)
  have m: "py_eq (Suc 0) (arrays initial_state) (VInt 2) (VInt 2) = Inr True"
    by (simp add: num_eq_def)
  have "eval 0 (Suc (Suc 0)) (Match (Integer 2) ([(Integer 1, String ''a'')] @ (Integer 2, String ''b'') # []))
      initial_state = eval 0 (Suc 0) (String ''b'') initial_state"
    using C9_match [OF s2, of "[]" initial_state "[(Integer 1, String ''a'')]" "Integer 2"
        "VInt 2" initial_state "String ''b''" "[]"] u2 s2 m
    by blast
  moreover have "eval 0 (Suc (Suc 0))
      (Match (Integer 3) [(Integer 1, String ''a''), (Integer 2, String ''b'')]) initial_state
      = (Inl (FluxRuntimeError NoMatchingCase), initial_state)"
    using C9_match [OF s3, of "[(Integer 1, String ''a''), (Integer 2, String ''b'')]" initial_state] u3
    by blast
  ultimately show ?thesis using b by simp
qed

section \<open>Self tail calls\<close>






lemma env_assign_here:
  "variables (h a) x = Some w \<Longrightarrow>
   env_assign h a x v = Some (h(a := (h a)\<lparr>variables := (variables (h a))(x \<mapsto> v)\<rparr>))"
  by (simp add: env_assign.simps dom_def)





















section \<open>Calls in a return statement\<close>

text \<open>
  Claim C1. The self-call in \<^verbatim>\<open>return n * factorial(n - 1)\<close> is eliminated although it is an
  operand of the multiplication: \<^verbatim>\<open>factorial(2)\<close> is 1, and it is 2 when the product is bound
  to a variable before it is returned. In \<^verbatim>\<open>return len(print "ab")\<close> the callee and the
  argument of the call are evaluated twice: the text is printed twice and the result is 2.
\<close>

theorem C1_tail_call_changes_result:
  "fst (interpret_tree 2 6 (factorial_program 2)) = Inr (VInt 1)
   \<and> fst (interpret_tree 1 8 (factorial_bound_program 2)) = Inr (VInt 2)
   \<and> fst (interpret_tree 1 5 twice_program) = Inr (VInt 2)
   \<and> stdout (snd (interpret_tree 1 5 twice_program)) = [''ab'', ''ab'']"
proof -
  have a: "fst (interpret_tree 2 6 (factorial_program 2)) = Inr (VInt 1)"
    by code_simp
  have b: "fst (interpret_tree 1 8 (factorial_bound_program 2)) = Inr (VInt 2)"
    by code_simp
  have c: "fst (interpret_tree 1 5 twice_program) = Inr (VInt 2)"
    by code_simp
  have d: "stdout (snd (interpret_tree 1 5 twice_program)) = [''ab'', ''ab'']"
    by code_simp
  from a b c d show ?thesis by blast
qed

section \<open>Block scope\<close>

lemma frame_refl [simp]: "frame st st"
  by (simp add: frame_def)

lemma frame_trans: "frame st st1 \<Longrightarrow> frame st1 st2 \<Longrightarrow> frame st st2"
  by (auto simp: frame_def)

lemma frame_raise [simp]: "frame st (snd (raise e st))"
  by (simp add: raise_def)

lemma frame_bind:
  assumes "frame st (snd m)" and "\<And>v st1. frame st1 (snd (f v st1))"
  shows "frame st (snd (bind_result m f))"
proof (cases m)
  case (Pair r st1)
  show ?thesis
  proof (cases r)
    case (Inl e)
    with Pair assms(1) show ?thesis by simp
  next
    case (Inr v)
    with Pair assms(1) assms(2) [of st1 v] show ?thesis
      by (auto intro: frame_trans)
  qed
qed

lemma framedD: "framed ev n \<Longrightarrow> frame st (snd (ev n st))"
  by (simp add: framed_def)

lemma frame_var: "frame st (snd (visit_var name st))"
  by (simp add: visit_var_def split: option.splits)

lemma frame_var_assign:
  assumes "framed ev value"
  shows "frame st (snd (visit_var_assign ev name value st))"
  unfolding visit_var_assign_def
  by (rule frame_bind [OF framedD [OF assms]]) (simp add: frame_def env_define_def)

lemma frame_bin_op:
  assumes "framed ev l" and "framed ev r"
  shows "frame st (snd (visit_bin_op ev d l operator r st))"
  unfolding visit_bin_op_def
  by (rule frame_bind [OF framedD [OF assms(1)]], rule frame_bind [OF framedD [OF assms(2)]]) simp

lemma frame_unary_op:
  assumes "framed ev r"
  shows "frame st (snd (visit_unary_op ev operator r st))"
  unfolding visit_unary_op_def
  by (rule frame_bind [OF framedD [OF assms]]) (simp split: option.splits)

lemma frame_if:
  assumes "framed ev c" and "framed ev t" and "\<And>n. e = Some n \<Longrightarrow> framed ev n"
  shows "frame st (snd (visit_if ev c t e st))"
  unfolding visit_if_def
  by (rule frame_bind [OF framedD [OF assms(1)]])
    (auto simp: framedD [OF assms(2)] framedD [OF assms(3)] split: option.splits)

lemma frame_conditional_expr:
  assumes "framed ev c" and "framed ev t" and "framed ev e"
  shows "frame st (snd (visit_conditional_expr ev c t e st))"
  unfolding visit_conditional_expr_def
  by (rule frame_bind [OF framedD [OF assms(1)]])
    (simp add: framedD [OF assms(2)] framedD [OF assms(3)])

lemma frame_eval_list:
  assumes "\<And>n. n \<in> set ns \<Longrightarrow> framed ev n"
  shows "frame st (snd (eval_list ev ns st))"
  using assms
proof (induction ns arbitrary: st)
  case Nil
  show ?case by simp
next
  case (Cons n ns)
  have a: "framed ev n" using Cons.prems by simp
  have b: "\<And>st1. frame st1 (snd (eval_list ev ns st1))"
    using Cons.IH Cons.prems by simp
  show ?case
    unfolding eval_list.simps
    by (rule frame_bind [OF framedD [OF a]], rule frame_bind [OF b]) simp
qed

lemma frame_exec_statements:
  assumes "\<And>n. n \<in> set ns \<Longrightarrow> framed ev n"
  shows "frame st (snd (exec_statements ev ns result st))"
  using assms
proof (induction ns arbitrary: st result)
  case Nil
  show ?case by simp
next
  case (Cons n ns)
  have a: "framed ev n" using Cons.prems by simp
  have b: "\<And>st1 v. frame st1 (snd (exec_statements ev ns v st1))"
    using Cons.IH Cons.prems by simp
  have c: "frame st2 (snd (exec_statements ev ns v (st2\<lparr>in_tail_position := f\<rparr>)))" for st2 v f
    using b [of "st2\<lparr>in_tail_position := f\<rparr>" v] by (simp add: frame_def)
  have d: "frame st (snd (ev n (st\<lparr>in_tail_position := f\<rparr>)))" for f
    using framedD [OF a, of "st\<lparr>in_tail_position := f\<rparr>"] by (simp add: frame_def)
  show ?case
    unfolding exec_statements.simps Let_def
    by (rule frame_bind) (auto simp: c d framedD [OF a])
qed

lemma frame_block:
  assumes "\<And>n. n \<in> set ns \<Longrightarrow> framed ev n"
  shows "env (snd (visit_block ev ns st)) = env st
    \<and> next_env st \<le> next_env (snd (visit_block ev ns st))
    \<and> (\<forall>a. a < next_env st \<longrightarrow> envs (snd (visit_block ev ns st)) a = envs st a)"
proof -
  define stA where "stA = (snd (new_environment (Some (env st)) st))\<lparr>env := next_env st\<rparr>"
  define stB where "stB = snd (exec_statements ev ns VNil stA)"
  have A: "env stA = next_env st" "next_env stA = Suc (next_env st)"
    "\<And>a. a \<noteq> next_env st \<Longrightarrow> envs stA a = envs st a"
    by (simp_all add: stA_def new_environment_def)
  have f: "frame stA stB"
    unfolding stB_def by (rule frame_exec_statements [OF assms])
  have r: "snd (visit_block ev ns st) = stB\<lparr>env := env st\<rparr>"
    by (simp add: visit_block_def new_environment_def execute_block_def stB_def stA_def
        split: prod.splits)
  show ?thesis
    unfolding r using f A by (auto simp: frame_def)
qed

lemma frame_visit_block:
  assumes "\<And>n. n \<in> set ns \<Longrightarrow> framed ev n"
  shows "frame st (snd (visit_block ev ns st))"
  using frame_block [OF assms] by (simp add: frame_def)

lemma frame_while_loop:
  assumes "framed ev c" and "framed ev b"
  shows "frame st (snd (while_loop ev fuel c b result st))"
proof (induction fuel arbitrary: st result)
  case 0
  show ?case by simp
next
  case (Suc n)
  show ?case
    unfolding while_loop.simps
    by (rule frame_bind [OF framedD [OF assms(1)]])
      (auto intro!: frame_bind [OF framedD [OF assms(2)]] Suc.IH)
qed

lemma frame_repeat_loop:
  assumes "framed ev b" and "framed ev c"
  shows "frame st (snd (repeat_loop ev fuel b c st))"
proof (induction fuel arbitrary: st)
  case 0
  show ?case by simp
next
  case (Suc n)
  show ?case
    unfolding repeat_loop.simps
    by (rule frame_bind [OF framedD [OF assms(1)]], rule frame_bind [OF framedD [OF assms(2)]])
      (auto intro: Suc.IH)
qed

lemma frame_match_cases:
  assumes "\<And>p b. (p, b) \<in> set cs \<Longrightarrow> framed ev p \<and> framed ev b"
  shows "frame st (snd (match_cases ev d v cs st))"
  using assms
proof (induction cs arbitrary: st)
  case Nil
  show ?case by simp
next
  case (Cons c cs)
  obtain p b where c: "c = (p, b)" by (cases c)
  have pb: "framed ev p" "framed ev b" using Cons.prems c by auto
  have r: "\<And>st1. frame st1 (snd (match_cases ev d v cs st1))"
    by (rule Cons.IH) (use Cons.prems in auto)
  show ?case
    unfolding c match_cases.simps
    by (rule frame_bind [OF framedD [OF pb(1)]])
      (auto simp: framedD [OF pb(2)] r split: sum.splits)
qed

lemma frame_match:
  assumes "framed ev e" and "\<And>p b. (p, b) \<in> set cs \<Longrightarrow> framed ev p \<and> framed ev b"
  shows "frame st (snd (visit_match ev d e cs st))"
  unfolding visit_match_def
  by (rule frame_bind [OF framedD [OF assms(1)]]) (rule frame_match_cases [OF assms(2)])

lemma frame_func_def: "frame st (snd (visit_func_def name ps statements st))"
  by (simp add: visit_func_def_def new_function_def frame_def env_define_def)

lemma frame_lambda: "frame st (snd (visit_lambda ps statements st))"
  by (simp add: visit_lambda_def new_function_def frame_def)

lemma frame_return:
  assumes "\<And>n. value = Some n \<Longrightarrow> framed ev n \<and> (\<forall>callee args. n \<noteq> FuncCall callee args)"
  shows "frame st (snd (visit_return ev value st))"
proof -
  let ?st0 = "st\<lparr>in_tail_position := (current_function st \<noteq> None)\<rparr>"
  let ?m = "bind_result (evaluate ev value ?st0)
      (\<lambda>v st1. (Inl (ReturnException v) :: signal + val, st1))"
  have e: "frame ?st0 (snd (evaluate ev value ?st0))"
    using assms by (cases "value") (auto dest: framedD)
  have m: "frame ?st0 (snd ?m)"
    by (rule frame_bind [OF e]) simp
  have eq: "visit_return ev value st = (fst ?m, (snd ?m)\<lparr>in_tail_position := in_tail_position st\<rparr>)"
  proof (cases "value")
    case None
    then show ?thesis by (simp add: visit_return_def)
  next
    case (Some n)
    with assms have "\<forall>callee args. n \<noteq> FuncCall callee args" by simp
    then show ?thesis using Some
      by (cases n) (simp_all add: visit_return_def case_prod_beta)
  qed
  show ?thesis
    unfolding eq using m by (simp add: frame_def)
qed

lemma frame_array:
  assumes "\<And>n. n \<in> set ns \<Longrightarrow> framed ev n"
  shows "frame st (snd (visit_array ev ns st))"
proof -
  have a: "frame st (snd (eval_list ev ns st))"
    by (rule frame_eval_list) (rule assms)
  have b: "frame st1 (snd (let (a, st2) = new_array vs st1 in (Inr (VArray a), st2)))"
    for vs st1
    by (simp add: new_array_def frame_def)
  show ?thesis
    unfolding visit_array_def by (rule frame_bind [OF a]) (rule b)
qed

lemma frame_eval_pairs:
  assumes "\<And>p b. (p, b) \<in> set ps \<Longrightarrow> framed ev p \<and> framed ev b"
  shows "frame st (snd (eval_pairs ev ps d st))"
  using assms
proof (induction ps arbitrary: st d)
  case Nil
  show ?case by simp
next
  case (Cons c ps)
  obtain k v where c: "c = (k, v)" by (cases c)
  have kv: "framed ev k" "framed ev v" using Cons.prems c by auto
  have r: "\<And>st1 d1. frame st1 (snd (eval_pairs ev ps d1 st1))"
    by (rule Cons.IH) (use Cons.prems in auto)
  show ?case
    unfolding c eval_pairs.simps
    by (rule frame_bind [OF framedD [OF kv(1)]], rule frame_bind [OF framedD [OF kv(2)]])
      (auto simp: r split: sum.splits)
qed

lemma frame_print:
  assumes "framed ev e"
  shows "frame st (snd (visit_print ev e st))"
  unfolding visit_print_def
  by (rule frame_bind [OF framedD [OF assms]]) (simp add: frame_def split: option.splits)

lemma frame_array_access:
  assumes "framed ev i"
  shows "frame st (snd (visit_array_access ev name i st))"
proof (cases "env_get (envs st) (env st) name")
  case None
  then show ?thesis by (simp add: visit_array_access_def)
next
  case (Some a)
  show ?thesis
    unfolding visit_array_access_def Some option.case
    by (rule frame_bind [OF framedD [OF assms]]) (simp split: val.splits option.splits)
qed

lemma framedI: "(\<And>st. frame st (snd (ev n st))) \<Longrightarrow> framed ev n"
  by (simp add: framed_def)

lemma eval_framed:
  "scope_local n \<Longrightarrow> framed (eval fuel d) n"
proof (induction d arbitrary: n)
  case 0
  show ?case by (simp add: framed_def)
next
  case (Suc d)
  note IH = Suc.IH
  show ?case
  proof (cases n)
    case (Integer i)
    show ?thesis unfolding Integer by (rule framedI) (simp add: eval_node)
  next
    case (Float x)
    show ?thesis unfolding Float by (rule framedI) (simp add: eval_node)
  next
    case (String s)
    show ?thesis unfolding String by (rule framedI) (simp add: eval_node)
  next
    case (Boolean b)
    show ?thesis unfolding Boolean by (rule framedI) (simp add: eval_node)
  next
    case (Var name)
    show ?thesis unfolding Var by (rule framedI) (simp add: eval_node frame_var)
  next
    case (VarAssign name v)
    with Suc.prems have "framed (eval fuel d) v" by (simp add: IH)
    then show ?thesis
      unfolding VarAssign by (intro framedI) (simp add: eval_node frame_var_assign)
  next
    case (VarReassign name v)
    with Suc.prems show ?thesis by simp
  next
    case (BinOp l operator r)
    with Suc.prems have "framed (eval fuel d) l" "framed (eval fuel d) r" by (simp_all add: IH)
    then show ?thesis
      unfolding BinOp by (intro framedI) (simp add: eval_node frame_bin_op)
  next
    case (UnaryOp operator r)
    with Suc.prems have "framed (eval fuel d) r" by (simp add: IH)
    then show ?thesis
      unfolding UnaryOp by (intro framedI) (simp add: eval_node frame_unary_op)
  next
    case (Block ns)
    with Suc.prems have "\<And>m. m \<in> set ns \<Longrightarrow> framed (eval fuel d) m"
      by (simp add: list_all_iff IH)
    from frame_visit_block [OF this] show ?thesis
      unfolding Block by (intro framedI) (simp add: eval_node)
  next
    case (If_stmt c t e)
    with Suc.prems have a: "framed (eval fuel d) c" "framed (eval fuel d) t"
      and b: "\<And>m. e = Some m \<Longrightarrow> framed (eval fuel d) m"
      by (simp_all add: IH)
    show ?thesis
      unfolding If_stmt by (intro framedI) (simp add: eval_node frame_if [OF a b])
  next
    case (While c b)
    with Suc.prems have "framed (eval fuel d) c" "framed (eval fuel d) b" by (simp_all add: IH)
    then show ?thesis
      unfolding While by (intro framedI) (simp add: eval_node visit_while_def frame_while_loop)
  next
    case (For vn s1 e1 ko bs)
    with Suc.prems show ?thesis by simp
  next
    case (RepeatUntil b c)
    with Suc.prems have "framed (eval fuel d) b" "framed (eval fuel d) c" by (simp_all add: IH)
    then show ?thesis
      unfolding RepeatUntil
      by (intro framedI) (simp add: eval_node visit_repeat_until_def frame_repeat_loop)
  next
    case (Match e cs)
    with Suc.prems have a: "framed (eval fuel d) e" by (simp add: IH)
    from Match Suc.prems have "\<And>p b. (p, b) \<in> set cs \<Longrightarrow> scope_local p \<and> scope_local b"
      by (fastforce simp: list_all_iff)
    then have b: "\<And>p b. (p, b) \<in> set cs \<Longrightarrow> framed (eval fuel d) p \<and> framed (eval fuel d) b"
      by (simp add: IH)
    show ?thesis
      unfolding Match by (intro framedI) (simp add: eval_node frame_match [OF a b])
  next
    case (MatchCase p b)
    with Suc.prems have "framed (eval fuel d) b" by (simp add: IH)
    then show ?thesis
      unfolding MatchCase by (intro framedI) (simp add: eval_node framedD)
  next
    case (FuncDef name ps statements)
    show ?thesis unfolding FuncDef by (rule framedI) (simp add: eval_node frame_func_def)
  next
    case (FuncCall callee args)
    with Suc.prems show ?thesis by simp
  next
    case (Return rv)
    have "\<And>m. rv = Some m \<Longrightarrow>
        framed (eval fuel d) m \<and> (\<forall>callee args. m \<noteq> FuncCall callee args)"
      using Suc.prems Return by (auto intro: IH)
    from frame_return [OF this] show ?thesis
      unfolding Return by (intro framedI) (simp add: eval_node)
  next
    case (Lambda ps statements)
    show ?thesis unfolding Lambda by (rule framedI) (simp add: eval_node frame_lambda)
  next
    case (Array ns)
    with Suc.prems have "\<And>m. m \<in> set ns \<Longrightarrow> framed (eval fuel d) m"
      by (simp add: list_all_iff IH)
    from frame_array [OF this] show ?thesis
      unfolding Array by (intro framedI) (simp add: eval_node)
  next
    case (Dict ps)
    with Suc.prems have "\<And>p b. (p, b) \<in> set ps \<Longrightarrow> scope_local p \<and> scope_local b"
      by (fastforce simp: list_all_iff)
    then have "\<And>p b. (p, b) \<in> set ps \<Longrightarrow> framed (eval fuel d) p \<and> framed (eval fuel d) b"
      by (simp add: IH)
    from frame_eval_pairs [OF this] show ?thesis
      unfolding Dict by (intro framedI) (simp add: eval_node visit_dict_def)
  next
    case (ConditionalExpr c t e)
    with Suc.prems have "framed (eval fuel d) c" "framed (eval fuel d) t" "framed (eval fuel d) e"
      by (simp_all add: IH)
    then show ?thesis
      unfolding ConditionalExpr by (intro framedI) (simp add: eval_node frame_conditional_expr)
  next
    case (Print e)
    with Suc.prems have "framed (eval fuel d) e" by (simp add: IH)
    then show ?thesis
      unfolding Print by (intro framedI) (simp add: eval_node frame_print)
  next
    case (ArrayAssign an ix v)
    with Suc.prems show ?thesis by simp
  next
    case (ArrayAccess an ix)
    with Suc.prems have "framed (eval fuel d) ix" by (simp add: IH)
    then show ?thesis
      unfolding ArrayAccess by (intro framedI) (simp add: eval_node frame_array_access)
  qed
qed

lemma env_get_agree:
  "(\<forall>b\<le>a. h' b = h b) \<Longrightarrow> env_get h' a x = env_get h a x"
proof (induction a rule: less_induct)
  case (less a)
  have here: "h' a = h a" using less.prems by simp
  have up: "env_get h' p x = env_get h p x" if "p < a" for p
    using less.IH [OF that] less.prems that by simp
  show ?case
    by (simp add: env_get.simps [of h' a x] env_get.simps [of h a x] here up
        split: option.splits)
qed

text \<open>
  Claim C8. A block of statements that only declare, compute and print leaves every
  environment that existed before it as it was, and restores the current environment; so
  after the block every name resolves to the value it had before, whatever the block
  declared under that name and however the block ended.
\<close>

theorem C8_block_scope:
  assumes "list_all scope_local statements"
    and "env st < next_env st"
    and "eval fuel (Suc d) (Block statements) st = (r, st')"
  shows "env st' = env st
    \<and> (\<forall>a. a < next_env st \<longrightarrow> envs st' a = envs st a)
    \<and> (\<forall>x. env_get (envs st') (env st') x = env_get (envs st) (env st) x)"
proof -
  have fr: "\<And>n. n \<in> set statements \<Longrightarrow> framed (eval fuel d) n"
    using assms(1) by (simp add: list_all_iff eval_framed)
  have "env (snd (visit_block (eval fuel d) statements st)) = env st
    \<and> next_env st \<le> next_env (snd (visit_block (eval fuel d) statements st))
    \<and> (\<forall>a. a < next_env st \<longrightarrow>
          envs (snd (visit_block (eval fuel d) statements st)) a = envs st a)"
    by (rule frame_block) (rule fr)
  with assms(3)
  have e: "env st' = env st"
    and a: "\<forall>a. a < next_env st \<longrightarrow> envs st' a = envs st a"
    by (simp_all add: eval_node)
  have "\<forall>b\<le>env st. envs st' b = envs st b"
    using a assms(2) by simp
  then have "env_get (envs st') (env st) x = env_get (envs st) (env st) x" for x
    by (rule env_get_agree)
  with e a show ?thesis by simp
qed

theorem C8_block_scope_witness:
  "\<exists>r st'. eval 0 3 (Block shadow_block) shadow_state = (r, st')
     \<and> list_all scope_local shadow_block
     \<and> env shadow_state < next_env shadow_state
     \<and> stdout st' = [''2'']
     \<and> env_get (envs shadow_state) (env shadow_state) ''x'' = Some (VInt 1)
     \<and> env_get (envs st') (env st') ''x'' = Some (VInt 1)"
proof -
  obtain r st' where e: "eval 0 (Suc 2) (Block shadow_block) shadow_state = (r, st')"
    by (cases "eval 0 (Suc 2) (Block shadow_block) shadow_state")
  have l: "list_all scope_local shadow_block"
    by (simp add: shadow_block_def)
  have w: "env shadow_state < next_env shadow_state"
    by (simp add: shadow_state_def initial_state_def env_define_def)
  have o: "stdout (snd (eval 0 (Suc 2) (Block shadow_block) shadow_state)) = [''2'']"
    by code_simp
  have b: "env_get (envs shadow_state) (env shadow_state) ''x'' = Some (VInt 1)"
    by code_simp
  from C8_block_scope [OF l w e]
  have "env_get (envs st') (env st') ''x'' = env_get (envs shadow_state) (env shadow_state) ''x''"
    by blast
  with e l w o b show ?thesis
    by (simp add: eval_nat_numeral)
qed

end
